theory Spec2Isabelle
  imports
    Complex_Main
    "HOL-Library.Char_ord"
    "HOL-Library.List_Lexorder"
    "HOL-Library.Product_Lexorder"
    "HOL-Library.Multiset"
begin

section \<open>Cells of a numeric column\<close>

text \<open>
  A float64 cell is a finite number, one of the two infinities, or NaN (which the frame
  library also uses for a missing value). Zero has a sign: \<open>Fin 0\<close> is positive zero and
  \<open>NZero\<close> is negative zero; they compare equal and divide differently. The finite
  values other than zero are modelled by exact reals: rounding is not modelled, the
  special values and the sign of zero are.
\<close>

datatype fval = Fin real | NZero | PInf | NInf | NaN

definition is_nan :: "fval \<Rightarrow> bool" where
  "is_nan x = (case x of NaN \<Rightarrow> True | _ \<Rightarrow> False)"

definition is_inf :: "fval \<Rightarrow> bool" where
  "is_inf x = (case x of PInf \<Rightarrow> True | NInf \<Rightarrow> True | _ \<Rightarrow> False)"

definition is_zero :: "fval \<Rightarrow> bool" where
  "is_zero x = (case x of Fin a \<Rightarrow> a = 0 | NZero \<Rightarrow> True | _ \<Rightarrow> False)"

definition is_finite :: "fval \<Rightarrow> bool" where
  "is_finite x = (case x of Fin _ \<Rightarrow> True | NZero \<Rightarrow> True | _ \<Rightarrow> False)"

text \<open>The sign bit of a cell, and the number a finite cell stands for.\<close>

fun fsign :: "fval \<Rightarrow> bool" where
  "fsign (Fin a) = (a < 0)"
| "fsign NZero = True"
| "fsign PInf = False"
| "fsign NInf = True"
| "fsign NaN = False"

fun finite_value :: "fval \<Rightarrow> real option" where
  "finite_value (Fin a) = Some a"
| "finite_value NZero = Some 0"
| "finite_value _ = None"

definition real_of :: "fval \<Rightarrow> real" where
  "real_of x = (case finite_value x of Some a \<Rightarrow> a | None \<Rightarrow> 0)"

definition signed_zero :: "bool \<Rightarrow> fval" where
  "signed_zero negative = (if negative then NZero else Fin 0)"

definition signed_inf :: "bool \<Rightarrow> fval" where
  "signed_inf negative = (if negative then NInf else PInf)"

text \<open>
  Addition: infinities of opposite sign give NaN; two zeros give negative zero only when
  both are negative; a sum of finite numbers that cancels gives positive zero.
\<close>

definition fadd :: "fval \<Rightarrow> fval \<Rightarrow> fval" where
  "fadd x y =
     (if is_nan x \<or> is_nan y then NaN
      else if is_inf x \<and> is_inf y then (if fsign x = fsign y then x else NaN)
      else if is_inf x then x
      else if is_inf y then y
      else if is_zero x \<and> is_zero y then signed_zero (fsign x \<and> fsign y)
      else Fin (real_of x + real_of y))"

definition fneg :: "fval \<Rightarrow> fval" where
  "fneg x =
     (if is_nan x then NaN
      else if is_inf x then signed_inf (\<not> fsign x)
      else if is_zero x then signed_zero (\<not> fsign x)
      else Fin (- real_of x))"

definition fsub :: "fval \<Rightarrow> fval \<Rightarrow> fval" where
  "fsub a b = fadd a (fneg b)"

text \<open>
  Product and quotient: the sign of the result is the exclusive or of the signs, also for
  a zero and for an infinity; zero times infinity, zero by zero and infinity by infinity
  are NaN; a nonzero number divided by a zero is an infinity.
\<close>

definition fmul :: "fval \<Rightarrow> fval \<Rightarrow> fval" where
  "fmul x y =
     (if is_nan x \<or> is_nan y then NaN
      else if (is_inf x \<and> is_zero y) \<or> (is_zero x \<and> is_inf y) then NaN
      else if is_inf x \<or> is_inf y then signed_inf (fsign x \<noteq> fsign y)
      else if is_zero x \<or> is_zero y then signed_zero (fsign x \<noteq> fsign y)
      else Fin (real_of x * real_of y))"

definition fdiv :: "fval \<Rightarrow> fval \<Rightarrow> fval" where
  "fdiv x y =
     (if is_nan x \<or> is_nan y then NaN
      else if (is_inf x \<and> is_inf y) \<or> (is_zero x \<and> is_zero y) then NaN
      else if is_inf x \<or> is_zero y then signed_inf (fsign x \<noteq> fsign y)
      else if is_inf y \<or> is_zero x then signed_zero (fsign x \<noteq> fsign y)
      else Fin (real_of x / real_of y))"

text \<open>
  A counter column read from the file is an int64 column when every cell is an integer
  and a float64 column otherwise; a cell carries the type of its column. \<open>IntCell i\<close>
  is an int64 value, so \<open>- 2^63 \<le> i < 2^63\<close>. The sum of two int64 cells is an int64
  cell and wraps around; any other sum is a float sum. A true division is always a
  float division, of the cells converted to floats (the integer zero to positive zero).
\<close>

datatype num = IntCell int | FloatCell fval

definition wrap64 :: "int \<Rightarrow> int" where
  "wrap64 n = (n + 2 ^ 63) mod 2 ^ 64 - 2 ^ 63"

fun to_float :: "num \<Rightarrow> fval" where
  "to_float (IntCell i) = Fin (of_int i)"
| "to_float (FloatCell x) = x"

fun nadd :: "num \<Rightarrow> num \<Rightarrow> num" where
  "nadd (IntCell a) (IntCell b) = IntCell (wrap64 (a + b))"
| "nadd x y = FloatCell (fadd (to_float x) (to_float y))"

definition ndiv :: "num \<Rightarrow> num \<Rightarrow> fval" where
  "ndiv x y = fdiv (to_float x) (to_float y)"

section \<open>The input tables and the merged table\<close>

text \<open>
  One row of \<^verbatim>\<open>shortform_videos.csv\<close>. A text column holds a string or nothing
  (\<open>None\<close> is the frame's missing value). The column \<open>retention_rate\<close> may be absent from
  the file; the table records whether it is there, and the field of a row means nothing
  when it is not.
\<close>

record video =
  video_id :: string
  creator_id :: "int option"
  format_type :: "string option"
  duration_sec :: fval
  views :: num
  likes :: num
  comments :: num
  shares :: num
  watch_time :: num
  full_views :: num
  retention_rate :: fval
  hook_watch_rate :: fval

record videos_df =
  v_rows :: "video list"
  has_retention_rate :: bool

record creator =
  c_creator_id :: "int option"
  c_creator_name :: "string option"
  c_niche :: "string option"
  c_followers :: fval

text \<open>
  A row of the merged table: the video's columns, the creator's columns (missing when no
  creator matches) and the four derived ratios.
\<close>

record arow = video +
  creator_name :: "string option"
  niche :: "string option"
  followers :: fval
  engagement_rate :: fval
  avg_watch_time_per_view :: fval
  like_to_view_ratio :: fval
  share_to_view_ratio :: fval

text \<open>
  The merged frame: its rows, and the two columns that later calls attach to it
  (\<open>None\<close> while the column does not exist).
\<close>

record merged_df =
  m_rows :: "arow list"
  duration_bin :: "string option list option"
  cluster :: "nat list option"

record analyzer =
  videos :: videos_df
  creators :: "creator list"
  merged :: merged_df

section \<open>The join and the derived metrics\<close>

text \<open>
  \<^verbatim>\<open>videos.merge(creators, on='creator_id', how='left')\<close>: every video row, in order,
  once for each creator row with the same key (in the creators' order), and once with
  missing creator columns when there is none. The frame library lets a missing key match
  a missing key. The derived columns are set by \<open>derive\<close> below.
\<close>

definition join_row :: "video \<Rightarrow> creator option \<Rightarrow> arow" where
  "join_row v c =
     video.extend v
       (arow.fields
          (case c of None \<Rightarrow> None | Some k \<Rightarrow> c_creator_name k)
          (case c of None \<Rightarrow> None | Some k \<Rightarrow> c_niche k)
          (case c of None \<Rightarrow> NaN | Some k \<Rightarrow> c_followers k)
          NaN NaN NaN NaN)"

definition merge_left :: "video list \<Rightarrow> creator list \<Rightarrow> arow list" where
  "merge_left vs cs =
     concat (map (\<lambda>v.
       (case filter (\<lambda>c. c_creator_id c = creator_id v) cs of
          [] \<Rightarrow> [join_row v None]
        | ms \<Rightarrow> map (\<lambda>c. join_row v (Some c)) ms)) vs)"

text \<open>Lines 28 to 35 of \<^verbatim>\<open>analysis.py\<close>, on one row.\<close>

definition derive :: "arow \<Rightarrow> arow" where
  "derive r =
     r\<lparr> engagement_rate :=
          fmul (ndiv (nadd (nadd (likes r) (comments r)) (shares r)) (views r)) (Fin 100),
        avg_watch_time_per_view := ndiv (watch_time r) (views r),
        like_to_view_ratio := ndiv (likes r) (views r),
        share_to_view_ratio := ndiv (shares r) (views r) \<rparr>"

text \<open>Lines 38 and 39: the retention rate is computed only when the column is absent.\<close>

definition derive_retention :: "bool \<Rightarrow> arow \<Rightarrow> arow" where
  "derive_retention present r =
     (if \<not> present then r\<lparr> retention_rate := ndiv (full_views r) (views r) \<rparr> else r)"

definition prepare_data :: "videos_df \<Rightarrow> creator list \<Rightarrow> merged_df" where
  "prepare_data vdf cs =
     \<lparr> m_rows = map (derive_retention (has_retention_rate vdf) \<circ> derive)
                  (merge_left (v_rows vdf) cs),
       duration_bin = None,
       cluster = None \<rparr>"

definition init_analyzer :: "videos_df \<Rightarrow> creator list \<Rightarrow> analyzer" where
  "init_analyzer vdf cs = \<lparr> videos = vdf, creators = cs, merged = prepare_data vdf cs \<rparr>"

text \<open>
  \<^verbatim>\<open>ShortformDataLoader.calculate_derived_metrics\<close> computes the same four columns on
  the videos table before the join; a row of its result is a video row with the four
  ratios.
\<close>

record dvideo = video +
  d_engagement_rate :: fval
  d_avg_watch_time_per_view :: fval
  d_like_to_view_ratio :: fval
  d_share_to_view_ratio :: fval

definition calculate_derived_metrics :: "video list \<Rightarrow> dvideo list" where
  "calculate_derived_metrics vs =
     map (\<lambda>v. video.extend v
       (dvideo.fields
          (fmul (ndiv (nadd (nadd (likes v) (comments v)) (shares v)) (views v)) (Fin 100))
          (ndiv (watch_time v) (views v))
          (ndiv (likes v) (views v))
          (ndiv (shares v) (views v)))) vs"

section \<open>Grouping and aggregation\<close>

text \<open>
  The frame library changed two defaults at version 3.0 that this program relies on:
  whether grouping by a categorical column lists the categories that no row has
  (\<open>observed=False\<close> before 3.0, \<open>observed=True\<close> from 3.0 on), and what \<open>idxmax\<close> does
  on a series whose values are all missing (it returns the missing value before 3.0 and
  raises from 3.0 on). The version is a parameter of the model.
\<close>

datatype pandas_version = Pandas2 | Pandas3

fun observed_default :: "pandas_version \<Rightarrow> bool" where
  "observed_default Pandas2 = False"
| "observed_default Pandas3 = True"

text \<open>What a call of the program raises.\<close>

datatype error =
    KeyError string
  | TypeError string
  | EmptyArgmax
  | AllNaArgmax
  | NoSamples
  | NonFiniteInput
  | InvalidParameterError string
  | TooFewSamples nat int

definition dropna :: "fval list \<Rightarrow> fval list" where
  "dropna xs = filter (\<lambda>x. \<not> is_nan x) xs"

definition fsum :: "fval list \<Rightarrow> fval" where
  "fsum xs = foldl fadd (Fin 0) xs"

fun fsqrt :: "fval \<Rightarrow> fval" where
  "fsqrt (Fin a) = (if a < 0 then NaN else Fin (sqrt a))"
| "fsqrt NZero = NZero"
| "fsqrt PInf = PInf"
| "fsqrt NInf = NaN"
| "fsqrt NaN = NaN"

text \<open>The aggregations skip missing values; the standard deviation is the sample one.\<close>

definition agg_mean :: "fval list \<Rightarrow> fval" where
  "agg_mean xs =
     (let ys = dropna xs
      in if ys = [] then NaN else fdiv (fsum ys) (Fin (real (length ys))))"

definition agg_count :: "fval list \<Rightarrow> fval" where
  "agg_count xs = Fin (real (length (dropna xs)))"

definition agg_std :: "fval list \<Rightarrow> fval" where
  "agg_std xs =
     (let ys = dropna xs; n = length ys
      in if n < 2 then NaN
         else let m = fdiv (fsum ys) (Fin (real n))
              in fsqrt (fdiv (fsum (map (\<lambda>y. fmul (fsub y m) (fsub y m)) ys))
                             (Fin (real (n - 1)))))"

text \<open>
  \<^verbatim>\<open>round(d)\<close>: scale, round half to even, scale back. A negative number that rounds
  to zero gives negative zero.
\<close>

definition rint :: "real \<Rightarrow> real" where
  "rint x =
     (let f = \<lfloor>x\<rfloor>; d = x - of_int f
      in if d < 1 / 2 then of_int f
         else if 1 / 2 < d then of_int f + 1
         else if even f then of_int f else of_int f + 1)"

fun round_dec :: "nat \<Rightarrow> fval \<Rightarrow> fval" where
  "round_dec d (Fin x) =
     (let y = rint (x * 10 ^ d) / 10 ^ d in if y = 0 \<and> x < 0 then NZero else Fin y)"
| "round_dec d x = x"

datatype aggfun = Mean | Std | Count

fun apply_agg :: "aggfun \<Rightarrow> fval list \<Rightarrow> fval" where
  "apply_agg Mean xs = agg_mean xs"
| "apply_agg Std xs = agg_std xs"
| "apply_agg Count xs = agg_count xs"

fun agg_name :: "aggfun \<Rightarrow> string" where
  "agg_name Mean = ''mean''"
| "agg_name Std = ''std''"
| "agg_name Count = ''count''"

text \<open>
  \<^verbatim>\<open>.agg({column: functions}).round(d)\<close> on the rows of one group: one cell for each
  column and function, labelled by both.
\<close>

type_synonym 'r agg_spec = "(string \<times> ('r \<Rightarrow> fval) \<times> aggfun list) list"

type_synonym stat_row = "((string \<times> string) \<times> fval) list"

definition agg :: "'r agg_spec \<Rightarrow> nat \<Rightarrow> 'r list \<Rightarrow> stat_row" where
  "agg spec d g =
     concat (map (\<lambda>(c, f, fs).
       map (\<lambda>a. ((c, agg_name a), round_dec d (apply_agg a (map f g)))) fs) spec)"

text \<open>
  \<^verbatim>\<open>groupby(key)\<close> on a plain column: a row whose key is missing belongs to no group; the
  groups are the key values that occur, in ascending order, each with its rows in the
  table's order.
\<close>

definition group_keys :: "('r \<Rightarrow> 'k option) \<Rightarrow> 'r list \<Rightarrow> ('k::linorder) list" where
  "group_keys key rs = sort (remdups (List.map_filter key rs))"

definition groupby :: "('r \<Rightarrow> 'k option) \<Rightarrow> 'r list \<Rightarrow> (('k::linorder) \<times> 'r list) list" where
  "groupby key rs = map (\<lambda>k. (k, filter (\<lambda>r. key r = Some k) rs)) (group_keys key rs)"

text \<open>
  \<^verbatim>\<open>groupby\<close> on a categorical column: the groups follow the order of the categories;
  with \<open>observed\<close> only the categories that some row has are listed, without it every
  category is, with no rows when none has it.
\<close>

definition groupby_categorical ::
  "bool \<Rightarrow> string list \<Rightarrow> (string option \<times> 'r) list \<Rightarrow> (string \<times> 'r list) list" where
  "groupby_categorical observed cats krs =
     map (\<lambda>c. (c, map snd (filter (\<lambda>kr. fst kr = Some c) krs)))
       (if observed then filter (\<lambda>c. Some c \<in> set (map fst krs)) cats else cats)"

section \<open>The grouped analyses\<close>

definition format_spec :: "arow agg_spec" where
  "format_spec =
     [(''views'', to_float \<circ> views, [Mean, Std]),
      (''likes'', to_float \<circ> likes, [Mean, Std]),
      (''comments'', to_float \<circ> comments, [Mean, Std]),
      (''shares'', to_float \<circ> shares, [Mean, Std]),
      (''retention_rate'', retention_rate, [Mean, Std]),
      (''engagement_rate'', engagement_rate, [Mean, Std]),
      (''hook_watch_rate'', hook_watch_rate, [Mean, Std])]"

definition format_performance_analysis :: "merged_df \<Rightarrow> (string \<times> stat_row) list" where
  "format_performance_analysis m =
     map (\<lambda>(k, g). (k, agg format_spec 2 g)) (groupby format_type (m_rows m))"

definition niche_spec :: "arow agg_spec" where
  "niche_spec =
     [(''views'', to_float \<circ> views, [Mean, Count]),
      (''likes'', to_float \<circ> likes, [Mean]),
      (''shares'', to_float \<circ> shares, [Mean]),
      (''retention_rate'', retention_rate, [Mean]),
      (''engagement_rate'', engagement_rate, [Mean]),
      (''hook_watch_rate'', hook_watch_rate, [Mean])]"

text \<open>Line 87 joins the two levels of each column label with an underscore.\<close>

definition flatten_columns :: "stat_row \<Rightarrow> (string \<times> fval) list" where
  "flatten_columns r = map (\<lambda>((c, a), v). (c @ ''_'' @ a, v)) r"

definition niche_analysis :: "merged_df \<Rightarrow> (string \<times> (string \<times> fval) list) list" where
  "niche_analysis m =
     map (\<lambda>(k, g). (k, flatten_columns (agg niche_spec 3 g))) (groupby niche (m_rows m))"

text \<open>
  A column of a summary table: the index with one cell each. The labels asked for below
  are labels of the aggregation that built the table.
\<close>

definition cell :: "('l \<times> fval) list \<Rightarrow> 'l \<Rightarrow> fval" where
  "cell r l = (case map_of r l of Some v \<Rightarrow> v | None \<Rightarrow> NaN)"

definition series :: "'l \<Rightarrow> ('k \<times> ('l \<times> fval) list) list \<Rightarrow> ('k \<times> fval) list" where
  "series l t = map (\<lambda>(k, r). (k, cell r l)) t"

section \<open>Duration bins\<close>

text \<open>
  \<^verbatim>\<open>pd.cut(x, bins, labels)\<close> with its defaults: each bin is open on the left and closed
  on the right, the lowest edge is not included, and a value in no bin (or missing, or
  infinite) gets no label.
\<close>

fun cut_bins :: "real list \<Rightarrow> string list \<Rightarrow> real \<Rightarrow> string option" where
  "cut_bins (lo # hi # bs) (l # ls) x =
     (if lo < x \<and> x \<le> hi then Some l else cut_bins (hi # bs) ls x)"
| "cut_bins _ _ _ = None"

definition duration_bins :: "real list" where
  "duration_bins = [0, 15, 30, 45, 60, 100]"

definition duration_labels :: "string list" where
  "duration_labels = [''0-15s'', ''15-30s'', ''30-45s'', ''45-60s'', ''60s+'']"

fun cut_duration :: "fval \<Rightarrow> string option" where
  "cut_duration (Fin x) = cut_bins duration_bins duration_labels x"
| "cut_duration NZero = cut_bins duration_bins duration_labels 0"
| "cut_duration _ = None"

definition duration_spec :: "arow agg_spec" where
  "duration_spec =
     [(''views'', to_float \<circ> views, [Mean]),
      (''retention_rate'', retention_rate, [Mean]),
      (''engagement_rate'', engagement_rate, [Mean]),
      (''hook_watch_rate'', hook_watch_rate, [Mean])]"

text \<open>A dictionary of single functions gives plain column labels.\<close>

definition plain_columns :: "stat_row \<Rightarrow> (string \<times> fval) list" where
  "plain_columns r = map (\<lambda>((c, a), v). (c, v)) r"

text \<open>
  \<^verbatim>\<open>duration_analysis\<close> first writes the column \<open>duration_bin\<close> into the merged table
  (lines 94 to 98), then groups by it. It returns the summary and the analyzer as the
  call leaves it.
\<close>

definition assign_duration_bin :: "merged_df \<Rightarrow> merged_df" where
  "assign_duration_bin m = m\<lparr> duration_bin := Some (map (cut_duration \<circ> duration_sec) (m_rows m)) \<rparr>"

definition duration_groups :: "pandas_version \<Rightarrow> merged_df \<Rightarrow> (string \<times> arow list) list" where
  "duration_groups pv m =
     groupby_categorical (observed_default pv) duration_labels
       (zip (map (cut_duration \<circ> duration_sec) (m_rows m)) (m_rows m))"

definition duration_analysis ::
  "pandas_version \<Rightarrow> analyzer \<Rightarrow> (string \<times> (string \<times> fval) list) list \<times> analyzer" where
  "duration_analysis pv st =
     (let m = assign_duration_bin (merged st)
      in (map (\<lambda>(k, g). (k, plain_columns (agg duration_spec 3 g))) (duration_groups pv m),
          st\<lparr> merged := m \<rparr>))"

section \<open>Sorting by a numeric column\<close>

text \<open>
  The order of the cells of a numeric column when the library sorts or selects: a missing
  value comes below every number, and the two zeros are equal.
\<close>

fun fval_key :: "fval \<Rightarrow> nat \<times> real" where
  "fval_key NaN = (0, 0)"
| "fval_key NInf = (1, 0)"
| "fval_key (Fin a) = (2, a)"
| "fval_key NZero = (2, 0)"
| "fval_key PInf = (3, 0)"

text \<open>
  A stable sort from the largest down: rows with equal cells keep the table's order. This
  is the merge sort that \<^verbatim>\<open>nlargest\<close> uses when it selects fewer rows than there are.
\<close>

definition stable_desc :: "('a \<Rightarrow> fval) \<Rightarrow> 'a list \<Rightarrow> 'a list" where
  "stable_desc f xs = rev (sort_key (fval_key \<circ> f) (rev xs))"

text \<open>
  \<^verbatim>\<open>sort_values(ascending=False)\<close> uses the library's default kind of sort, which
  promises no order among equal cells. The order it gives them is a function of the keys
  alone, and a parameter \<open>ties\<close> of the model: among positions with equal keys, the one
  with the larger value of \<open>ties\<close> comes first. The rows whose cell is missing come
  last, in the table's order.
\<close>

type_synonym tie_order = "(nat \<times> real) list \<Rightarrow> nat \<Rightarrow> nat"

definition argsort_desc :: "tie_order \<Rightarrow> (nat \<times> real) list \<Rightarrow> nat list" where
  "argsort_desc ties ks = rev (sort_key (\<lambda>i. (ks ! i, ties ks i)) [0..<length ks])"

definition sort_values_desc :: "tie_order \<Rightarrow> ('a \<Rightarrow> fval) \<Rightarrow> 'a list \<Rightarrow> 'a list" where
  "sort_values_desc ties f xs =
     (let ys = filter (\<lambda>x. \<not> is_nan (f x)) xs
      in map (\<lambda>i. ys ! i) (argsort_desc ties (map (fval_key \<circ> f) ys))
         @ filter (\<lambda>x. is_nan (f x)) xs)"

text \<open>Two tie orders: equal cells in the table's order, and in the reverse of it.\<close>

definition table_order :: tie_order where
  "table_order ks i = length ks - i"

definition reversed_order :: tie_order where
  "reversed_order ks i = i"

text \<open>\<^verbatim>\<open>head(n)\<close>: the first \<open>n\<close> rows, or all but the last \<open>-n\<close> when \<open>n\<close> is negative.\<close>

definition head :: "int \<Rightarrow> 'a list \<Rightarrow> 'a list" where
  "head n xs = (if 0 \<le> n then take (nat n) xs else take (length xs - nat (- n)) xs)"

section \<open>Creator ranking\<close>

text \<open>The labels an index of a frame can hold in this program.\<close>

datatype label = IntLabel nat | StrLabel string | PairLabel string string

record ranked_creator =
  rc_index :: label
  rc_creator_name :: string
  rc_stats :: "(string \<times> fval) list"
  rc_followers :: fval

definition creator_key :: "arow \<Rightarrow> (string \<times> string) option" where
  "creator_key r =
     (case creator_name r of
        None \<Rightarrow> None
      | Some n \<Rightarrow> (case niche r of None \<Rightarrow> None | Some c \<Rightarrow> Some (n, c)))"

definition creator_spec :: "arow agg_spec" where
  "creator_spec =
     [(''views'', to_float \<circ> views, [Mean]),
      (''likes'', to_float \<circ> likes, [Mean]),
      (''shares'', to_float \<circ> shares, [Mean]),
      (''retention_rate'', retention_rate, [Mean]),
      (''engagement_rate'', engagement_rate, [Mean]),
      (''hook_watch_rate'', hook_watch_rate, [Mean])]"

text \<open>Lines 57 to 64: one row for each pair of creator name and niche that occurs.\<close>

definition creator_stats :: "merged_df \<Rightarrow> ((string \<times> string) \<times> (string \<times> fval) list) list" where
  "creator_stats m =
     map (\<lambda>(k, g). (k, plain_columns (agg creator_spec 3 g))) (groupby creator_key (m_rows m))"

text \<open>
  Lines 67 to 71: the left join with the creators' follower counts on \<open>creator_name\<close>,
  which is a level of the index on the left and a column on the right. The frame library
  keeps an index level through a join only when the key is an index level on both sides;
  here the result gets a fresh index of row positions, the name becomes a column and the
  niche level is dropped.
\<close>

definition merge_followers ::
  "((string \<times> string) \<times> (string \<times> fval) list) list \<Rightarrow> creator list \<Rightarrow> ranked_creator list" where
  "merge_followers stats cs =
     (let joined =
        concat (map (\<lambda>((name, nic), r).
          (case filter (\<lambda>c. c_creator_name c = Some name) cs of
             [] \<Rightarrow> [(name, r, NaN)]
           | ms \<Rightarrow> map (\<lambda>c. (name, r, c_followers c)) ms)) stats)
      in map (\<lambda>(i, (name, r, f)).
               \<lparr> rc_index = IntLabel i, rc_creator_name = name, rc_stats = r, rc_followers = f \<rparr>)
             (enumerate 0 joined))"

definition creator_performance_ranking ::
  "tie_order \<Rightarrow> analyzer \<Rightarrow> int \<Rightarrow> ranked_creator list" where
  "creator_performance_ranking ties st top_n =
     head top_n
       (sort_values_desc ties (\<lambda>r. cell (rc_stats r) ''retention_rate'')
          (merge_followers (creator_stats (merged st)) (creators st)))"

section \<open>Correlation\<close>

text \<open>
  \<^verbatim>\<open>DataFrame.corr()\<close> with its defaults: Pearson correlation over the rows where both
  cells are finite, by one pass of Welford's updates. The library computes the entry for
  a pair of columns once, for the column of the larger position against the other, and
  writes it to both places of the matrix. A pair with no complete row, or with a divisor
  of zero, gets NaN.
\<close>

record welford =
  nobs :: nat
  meanx :: real
  meany :: real
  ssqdm_x :: real
  ssqdm_y :: real
  covxy :: real

definition welford_init :: welford where
  "welford_init = \<lparr> nobs = 0, meanx = 0, meany = 0, ssqdm_x = 0, ssqdm_y = 0, covxy = 0 \<rparr>"

definition welford_step :: "welford \<Rightarrow> real \<times> real \<Rightarrow> welford" where
  "welford_step w p =
     (let vx = fst p; vy = snd p;
          n = nobs w + 1;
          dx = vx - meanx w;
          dy = vy - meany w;
          mx = meanx w + 1 / real n * dx;
          my = meany w + 1 / real n * dy
      in \<lparr> nobs = n, meanx = mx, meany = my,
           ssqdm_x = ssqdm_x w + (vx - mx) * dx,
           ssqdm_y = ssqdm_y w + (vy - my) * dy,
           covxy = covxy w + (vx - mx) * dy \<rparr>)"

fun complete_pairs :: "fval list \<Rightarrow> fval list \<Rightarrow> (real \<times> real) list" where
  "complete_pairs (x # xs) (y # ys) =
     (case (finite_value x, finite_value y) of
        (Some a, Some b) \<Rightarrow> (a, b) # complete_pairs xs ys
      | _ \<Rightarrow> complete_pairs xs ys)"
| "complete_pairs _ _ = []"

definition welford_run :: "(real \<times> real) list \<Rightarrow> welford" where
  "welford_run ps = foldl welford_step welford_init ps"

definition nancorr_pair :: "fval list \<Rightarrow> fval list \<Rightarrow> fval" where
  "nancorr_pair xs ys =
     (let w = welford_run (complete_pairs xs ys)
      in if nobs w < 1 then NaN
         else let divisor = sqrt (ssqdm_x w * ssqdm_y w)
              in if divisor \<noteq> 0 then Fin (covxy w / divisor) else NaN)"

definition nancorr :: "fval list list \<Rightarrow> fval list list" where
  "nancorr cols =
     map (\<lambda>i. map (\<lambda>j. nancorr_pair (cols ! max i j) (cols ! min i j)) [0..<length cols])
       [0..<length cols]"

definition numeric_cols :: "(string \<times> (arow \<Rightarrow> fval)) list" where
  "numeric_cols =
     [(''views'', to_float \<circ> views), (''likes'', to_float \<circ> likes),
      (''comments'', to_float \<circ> comments), (''shares'', to_float \<circ> shares),
      (''watch_time'', to_float \<circ> watch_time), (''full_views'', to_float \<circ> full_views),
      (''retention_rate'', retention_rate), (''hook_watch_rate'', hook_watch_rate),
      (''engagement_rate'', engagement_rate),
      (''avg_watch_time_per_view'', avg_watch_time_per_view),
      (''like_to_view_ratio'', like_to_view_ratio),
      (''share_to_view_ratio'', share_to_view_ratio)]"

definition metric_column :: "merged_df \<Rightarrow> nat \<Rightarrow> fval list" where
  "metric_column m i = map (snd (numeric_cols ! i)) (m_rows m)"

text \<open>The matrix by rows; row and column \<open>i\<close> belong to the \<open>i\<close>-th name of \<open>numeric_cols\<close>.\<close>

definition correlation_analysis :: "merged_df \<Rightarrow> fval list list" where
  "correlation_analysis m = nancorr (map (\<lambda>c. map (snd c) (m_rows m)) numeric_cols)"

section \<open>Clustering\<close>

definition cluster_features :: "(string \<times> (arow \<Rightarrow> fval)) list" where
  "cluster_features =
     [(''views'', to_float \<circ> views), (''likes'', to_float \<circ> likes),
      (''shares'', to_float \<circ> shares),
      (''retention_rate'', retention_rate), (''engagement_rate'', engagement_rate)]"

definition feature_matrix :: "arow list \<Rightarrow> fval list list" where
  "feature_matrix rs = map (\<lambda>r. map (\<lambda>c. snd c r) cluster_features) rs"

definition finite_vals :: "fval list \<Rightarrow> real list" where
  "finite_vals xs = List.map_filter finite_value xs"

text \<open>
  \<^verbatim>\<open>StandardScaler().fit_transform(X)\<close>: it refuses a matrix with no row and one with an
  infinite cell, and lets missing cells through. Each column is centred on its mean and
  divided by its population standard deviation, a deviation of zero counting as one;
  mean and deviation are taken over the cells that are there. (A column with no cell at
  all has nothing to scale, whatever mean is taken.)
\<close>

definition column_mean :: "fval list \<Rightarrow> real" where
  "column_mean xs = (let vs = finite_vals xs in sum_list vs / real (length vs))"

definition column_scale :: "fval list \<Rightarrow> real" where
  "column_scale xs =
     (let vs = finite_vals xs;
          mu = column_mean xs;
          sd = sqrt (sum_list (map (\<lambda>v. (v - mu) ^ 2) vs) / real (length vs))
      in if sd = 0 then 1 else sd)"

definition scale_cell :: "fval list \<Rightarrow> fval \<Rightarrow> fval" where
  "scale_cell col x = fdiv (fsub x (Fin (column_mean col))) (Fin (column_scale col))"

definition scaler_transform :: "fval list list \<Rightarrow> fval list list" where
  "scaler_transform X =
     map (\<lambda>r. map (\<lambda>j. scale_cell (map (\<lambda>q. q ! j) X) (r ! j)) [0..<length r]) X"

definition scaler_fit_transform :: "fval list list \<Rightarrow> error + fval list list" where
  "scaler_fit_transform X =
     (if X = [] then Inl NoSamples
      else if list_ex (\<lambda>x. x = PInf \<or> x = NInf) (concat X) then Inl NonFiniteInput
      else Inr (scaler_transform X))"

text \<open>
  \<^verbatim>\<open>KMeans(n_clusters=k, random_state=42).fit_predict(X)\<close>. The checks come in this
  order: the parameter \<open>n_clusters\<close> must be an integer of at least one; the matrix must
  have a row and no missing or infinite cell; there must be at least \<open>k\<close> rows. The
  partition itself (seeded, iterative, in floating point) is a parameter \<open>km\<close> of the
  model, which gives one cluster number for each row.
\<close>

type_synonym kmeans = "fval list list \<Rightarrow> nat \<Rightarrow> nat list"

definition kmeans_fit_predict :: "kmeans \<Rightarrow> int \<Rightarrow> fval list list \<Rightarrow> error + nat list" where
  "kmeans_fit_predict km k X =
     (if k < 1 then Inl (InvalidParameterError ''n_clusters'')
      else if X = [] then Inl NoSamples
      else if list_ex (\<lambda>x. \<not> is_finite x) (concat X) then Inl NonFiniteInput
      else if int (length X) < k then Inl (TooFewSamples (length X) k)
      else Inr (km X (nat k)))"

text \<open>The parameter an error message names, when it names one.\<close>

fun offending_parameter :: "error \<Rightarrow> string option" where
  "offending_parameter (InvalidParameterError p) = Some p"
| "offending_parameter (TooFewSamples n k) = Some ''n_clusters''"
| "offending_parameter _ = None"

text \<open>Lines 135 and 136: the mean of each feature and the size of each cluster.\<close>

definition cluster_spec :: "arow agg_spec" where
  "cluster_spec = map (\<lambda>c. (fst c, snd c, [Mean])) cluster_features"

definition cluster_analysis :: "nat list \<Rightarrow> arow list \<Rightarrow> (nat \<times> (string \<times> fval) list) list" where
  "cluster_analysis ls rs =
     map (\<lambda>(k, g). (k, plain_columns (agg cluster_spec 3 (map snd g))
                        @ [(''count'', Fin (real (length g)))]))
       (groupby (Some \<circ> fst) (zip ls rs))"

definition performance_clustering ::
  "kmeans \<Rightarrow> analyzer \<Rightarrow> int \<Rightarrow> (error + (nat \<times> (string \<times> fval) list) list) \<times> analyzer" where
  "performance_clustering km st n_clusters =
     (case scaler_fit_transform (feature_matrix (m_rows (merged st))) of
        Inl e \<Rightarrow> (Inl e, st)
      | Inr X \<Rightarrow>
          (case kmeans_fit_predict km n_clusters X of
             Inl e \<Rightarrow> (Inl e, st)
           | Inr ls \<Rightarrow>
               (Inr (cluster_analysis ls (m_rows (merged st))),
                st\<lparr> merged := (merged st)\<lparr> cluster := Some ls \<rparr> \<rparr>)))"

section \<open>Top performers\<close>

record top_row =
  t_video_id :: string
  t_creator_name :: "string option"
  t_format_type :: "string option"
  t_duration_sec :: fval
  t_views :: num
  t_likes :: num
  t_shares :: num
  t_retention_rate :: fval
  t_engagement_rate :: fval
  t_hook_watch_rate :: fval
  t_niche :: "string option"

definition project_top :: "arow \<Rightarrow> top_row" where
  "project_top r =
     \<lparr> t_video_id = video_id r, t_creator_name = creator_name r, t_format_type = format_type r,
       t_duration_sec = duration_sec r, t_views = views r, t_likes = likes r,
       t_shares = shares r, t_retention_rate = retention_rate r,
       t_engagement_rate = engagement_rate r, t_hook_watch_rate = hook_watch_rate r,
       t_niche = niche r \<rparr>"

text \<open>
  The columns of the merged table by name. \<^verbatim>\<open>nlargest\<close> takes a numeric column; a text
  or categorical column is a \<^verbatim>\<open>TypeError\<close>, a name that is no column a \<^verbatim>\<open>KeyError\<close>.
\<close>

definition numeric_columns :: "(string \<times> (arow \<Rightarrow> fval)) list" where
  "numeric_columns =
     (''creator_id'', \<lambda>r. case creator_id r of None \<Rightarrow> NaN | Some i \<Rightarrow> Fin (of_int i))
     # (''duration_sec'', duration_sec) # (''followers'', followers) # numeric_cols"

definition text_columns :: "string list" where
  "text_columns = [''video_id'', ''format_type'', ''creator_name'', ''niche'']"

definition metric_values :: "merged_df \<Rightarrow> string \<Rightarrow> error + fval list" where
  "metric_values m name =
     (case map_of numeric_columns name of
        Some f \<Rightarrow> Inr (map f (m_rows m))
      | None \<Rightarrow>
          if name \<in> set text_columns then Inl (TypeError name)
          else if name = ''duration_bin'' then
            (case duration_bin m of None \<Rightarrow> Inl (KeyError name) | Some _ \<Rightarrow> Inl (TypeError name))
          else if name = ''cluster'' then
            (case cluster m of
               None \<Rightarrow> Inl (KeyError name)
             | Some ls \<Rightarrow> Inr (map (\<lambda>l. Fin (real l)) ls))
          else Inl (KeyError name))"

text \<open>
  \<^verbatim>\<open>nlargest(n, column)\<close> with \<open>keep='first'\<close>, as the library computes it. No row
  for \<open>n\<close> of zero or less. When \<open>n\<close> is at least the number of rows it returns
  \<^verbatim>\<open>sort_values(ascending=False).head(n)\<close>, so equal cells come in the order of the
  default sort. Otherwise it selects among the cells that are there with a stable merge
  sort, largest first and equal cells in the table's order, and appends the rows whose
  cell is missing; the first \<open>n\<close> of these.
\<close>

definition ranked :: "(fval \<times> 'a) list \<Rightarrow> (fval \<times> 'a) list" where
  "ranked kvs = stable_desc fst (filter (\<lambda>kv. \<not> is_nan (fst kv)) kvs)
                 @ filter (\<lambda>kv. is_nan (fst kv)) kvs"

definition nlargest :: "tie_order \<Rightarrow> int \<Rightarrow> (fval \<times> 'a) list \<Rightarrow> (fval \<times> 'a) list" where
  "nlargest ties n kvs =
     (if n \<le> 0 then []
      else if int (length kvs) \<le> n then head n (sort_values_desc ties fst kvs)
      else take (nat n) (ranked kvs))"

definition top_performers_analysis ::
  "tie_order \<Rightarrow> merged_df \<Rightarrow> string \<Rightarrow> int \<Rightarrow> error + top_row list" where
  "top_performers_analysis ties m metric top_n =
     (case metric_values m metric of
        Inl e \<Rightarrow> Inl e
      | Inr vs \<Rightarrow> Inr (map (project_top \<circ> snd) (nlargest ties top_n (zip vs (m_rows m)))))"

section \<open>The insights report\<close>

text \<open>
  \<^verbatim>\<open>Series.idxmax()\<close>: the index label of the first largest cell, missing cells skipped.
  On a series with no cell at all it raises. On a series whose cells are all missing it
  returns the missing value before version 3.0 of the frame library (\<open>None\<close> here) and
  raises from 3.0 on.
\<close>

fun idxmax :: "pandas_version \<Rightarrow> ('k \<times> fval) list \<Rightarrow> error + 'k option" where
  "idxmax pv [] = Inl EmptyArgmax"
| "idxmax pv s =
     (case filter (\<lambda>kv. \<not> is_nan (snd kv)) s of
        [] \<Rightarrow> (case pv of Pandas2 \<Rightarrow> Inr None | Pandas3 \<Rightarrow> Inl AllNaArgmax)
      | kv # kvs \<Rightarrow>
          Inr (Some (fst (foldl (\<lambda>b c. if fval_key (snd b) < fval_key (snd c) then c else b)
                             kv kvs))))"

text \<open>How the format strings print an index label.\<close>

fun str_nat :: "nat \<Rightarrow> string" where
  "str_nat n =
     (if n < 10 then [''0123456789'' ! n]
      else str_nat (n div 10) @ [''0123456789'' ! (n mod 10)])"

definition quoted :: "string \<Rightarrow> string" where
  "quoted s = [CHR 0x27] @ s @ [CHR 0x27]"

fun str_label :: "label \<Rightarrow> string" where
  "str_label (IntLabel i) = str_nat i"
| "str_label (StrLabel s) = s"
| "str_label (PairLabel a b) = ''('' @ quoted a @ '', '' @ quoted b @ '')''"

definition str_opt :: "string option \<Rightarrow> string" where
  "str_opt l = (case l of None \<Rightarrow> ''nan'' | Some s \<Rightarrow> s)"

text \<open>
  \<^verbatim>\<open>corr_matrix.unstack()\<close>: one cell for each pair of a column and a row of the matrix,
  column by column.
\<close>

definition unstack :: "string list \<Rightarrow> fval list list \<Rightarrow> ((string \<times> string) \<times> fval) list" where
  "unstack names M =
     concat (map (\<lambda>j. map (\<lambda>i. ((names ! j, names ! i), M ! i ! j)) [0..<length names])
       [0..<length names])"

text \<open>The five sentences of the report, each from the value its statement extracts.\<close>

definition format_insight :: "string option \<Rightarrow> string" where
  "format_insight best_format =
     '' **Best Performing Format**: '' @ str_opt best_format
       @ '' has the highest average retention rate''"

definition creator_insight :: "ranked_creator list \<Rightarrow> string" where
  "creator_insight top_creators =
     (if length top_creators > 0
      then '' **Top Creator**: '' @ str_label (rc_index (hd top_creators))
             @ '' leads in retention rate''
      else '' **Top Creator**: Analysis available in detailed report'')"

definition niche_insight :: "string option \<Rightarrow> string" where
  "niche_insight best_niche =
     '' **Most Engaging Niche**: '' @ str_opt best_niche
       @ '' generates highest engagement rates''"

definition duration_insight ::
  "pandas_version \<Rightarrow> (string \<times> (string \<times> fval) list) list \<Rightarrow> error + string" where
  "duration_insight pv duration_stats =
     (if duration_stats \<noteq> [] \<and> ''retention_rate'' \<in> set (map fst duration_spec)
      then (case idxmax pv (series ''retention_rate'' duration_stats) of
              Inl e \<Rightarrow> Inl e
            | Inr optimal_duration \<Rightarrow>
                Inr ('' **Optimal Duration**: '' @ str_opt optimal_duration
                       @ '' videos perform best''))
      else Inr '' **Duration Analysis**: Available in detailed report'')"

definition correlation_insight :: "tie_order \<Rightarrow> merged_df \<Rightarrow> string" where
  "correlation_insight ties m =
     (let highest_corr =
            sort_values_desc ties snd
              (unstack (map fst numeric_cols) (correlation_analysis m))
      in if length highest_corr > 2
         then '' **Strongest Correlation**: ''
                @ str_label (case fst (highest_corr ! 1) of (a, b) \<Rightarrow> PairLabel a b)
                @ '' and ''
                @ str_label (case fst (highest_corr ! 2) of (a, b) \<Rightarrow> PairLabel a b)
         else '' **Correlation Analysis**: Available in detailed analysis'')"

text \<open>
  \<^verbatim>\<open>generate_insights_report\<close>, statement by statement. An exception ends the call with
  the analyzer as it is at that point: the duration step has written its column by then
  or has not.
\<close>

definition generate_insights_report ::
  "tie_order \<Rightarrow> pandas_version \<Rightarrow> analyzer \<Rightarrow> (error + string list) \<times> analyzer" where
  "generate_insights_report ties pv st =
     (case idxmax pv (series (''retention_rate'', ''mean'')
                        (format_performance_analysis (merged st))) of
        Inl e \<Rightarrow> (Inl e, st)
      | Inr best_format \<Rightarrow>
          (let i1 = format_insight best_format;
               i2 = creator_insight (creator_performance_ranking ties st 5)
           in case idxmax pv (series ''engagement_rate_mean'' (niche_analysis (merged st))) of
                Inl e \<Rightarrow> (Inl e, st)
              | Inr best_niche \<Rightarrow>
                  (let i3 = niche_insight best_niche;
                       ds = duration_analysis pv st
                   in case duration_insight pv (fst ds) of
                        Inl e \<Rightarrow> (Inl e, snd ds)
                      | Inr i4 \<Rightarrow>
                          (Inr [i1, i2, i3, i4, correlation_insight ties (merged (snd ds))],
                           snd ds))))"

section \<open>Example tables\<close>

text \<open>
  The scenario of the specification: three videos with views 100, 0 and 50 and likes 10,
  5 and 5, no comments and no shares.
\<close>

definition example_video :: "string \<Rightarrow> int \<Rightarrow> int \<Rightarrow> video" where
  "example_video i v l =
     \<lparr> video_id = i, creator_id = Some 1, format_type = Some ''A'', duration_sec = Fin 10,
       views = IntCell v, likes = IntCell l, comments = IntCell 0, shares = IntCell 0,
       watch_time = IntCell 0, full_views = IntCell 0, retention_rate = Fin 0,
       hook_watch_rate = Fin 0 \<rparr>"

definition example_videos :: videos_df where
  "example_videos =
     \<lparr> v_rows = [example_video ''a'' 100 10, example_video ''b'' 0 5, example_video ''c'' 50 5],
       has_retention_rate = True \<rparr>"

text \<open>
  Two videos at the edges of the arithmetic: likes and comments of \<open>2^62\<close> each in int64
  columns with one view, and five likes with a float view count of negative zero.
\<close>

definition edge_videos :: videos_df where
  "edge_videos =
     \<lparr> v_rows =
         [(example_video ''w'' 1 (2 ^ 62))\<lparr> comments := IntCell (2 ^ 62) \<rparr>,
          (example_video ''z'' 0 5)\<lparr> views := FloatCell NZero \<rparr>],
       has_retention_rate = True \<rparr>"

text \<open>One video of 120 seconds, longer than the last duration bin.\<close>

definition long_videos :: videos_df where
  "long_videos =
     \<lparr> v_rows = [(example_video ''d'' 100 10)\<lparr> duration_sec := Fin 120 \<rparr>],
       has_retention_rate = True \<rparr>"

text \<open>Two rows that are the same video, and a partition that puts every row in cluster 0.\<close>

definition twin_videos :: videos_df where
  "twin_videos =
     \<lparr> v_rows = [example_video ''a'' 100 10, example_video ''a'' 100 10],
       has_retention_rate = True \<rparr>"

definition one_cluster :: kmeans where
  "one_cluster X k = replicate (length X) 0"

text \<open>Two creators with one video each; the second has the higher retention rate.\<close>

definition ranked_video :: "string \<Rightarrow> int \<Rightarrow> real \<Rightarrow> video" where
  "ranked_video i c rr = (example_video i 100 10)\<lparr> creator_id := Some c, retention_rate := Fin rr \<rparr>"

definition ranking_videos :: videos_df where
  "ranking_videos =
     \<lparr> v_rows = [ranked_video ''v1'' 1 (1 / 2), ranked_video ''v2'' 2 (9 / 10)],
       has_retention_rate = True \<rparr>"

definition amy :: creator where
  "amy = \<lparr> c_creator_id = Some 1, c_creator_name = Some ''Amy'', c_niche = Some ''food'',
        c_followers = Fin 10 \<rparr>"

definition zed :: creator where
  "zed = \<lparr> c_creator_id = Some 2, c_creator_name = Some ''Zed'', c_niche = Some ''tech'',
        c_followers = Fin 20 \<rparr>"

section \<open>Facts about the arithmetic of cells\<close>

lemmas cell_arith =
  fadd_def fneg_def fsub_def fmul_def fdiv_def ndiv_def wrap64_def
  is_nan_def is_inf_def is_zero_def is_finite_def real_of_def signed_zero_def signed_inf_def

lemma is_finite_iff: "is_finite x \<longleftrightarrow> (\<exists>a. x = Fin a) \<or> x = NZero"
  by (cases x) (simp_all add: is_finite_def)

lemma is_nan_iff: "is_nan x \<longleftrightarrow> x = NaN"
  by (cases x) (simp_all add: is_nan_def)

lemma finite_signed_zero: "is_finite (signed_zero b)"
  by (simp add: signed_zero_def is_finite_def)

lemma finite_fneg: "is_finite x \<Longrightarrow> is_finite (fneg x)"
  by (cases x) (simp_all add: cell_arith)

lemma finite_fadd: "is_finite x \<Longrightarrow> is_finite y \<Longrightarrow> is_finite (fadd x y)"
  by (cases x; cases y) (simp_all add: cell_arith)

lemma finite_fdiv: "is_finite x \<Longrightarrow> b \<noteq> 0 \<Longrightarrow> is_finite (fdiv x (Fin b))"
  by (cases x) (simp_all add: cell_arith)

section \<open>Derived metrics\<close>

lemma fdiv_Fin_pos:
  "0 < b \<Longrightarrow> fdiv (Fin a) (Fin b) = Fin (a / b)"
  by (simp add: fdiv_def is_nan_def is_inf_def is_zero_def real_of_def signed_zero_def)

lemma fdiv_Fin_zero:
  "fdiv (Fin a) (Fin 0) = (if 0 < a then PInf else if a < 0 then NInf else NaN)"
  by (simp add: fdiv_def is_nan_def is_inf_def is_zero_def signed_inf_def)

lemma fdiv_Fin_nzero:
  "fdiv (Fin a) NZero = (if 0 < a then NInf else if a < 0 then PInf else NaN)"
  by (auto simp: fdiv_def is_nan_def is_inf_def is_zero_def signed_inf_def)

lemma fmul_hundred:
  "fmul (Fin a) (Fin 100) = Fin (a * 100)" "fmul PInf (Fin 100) = PInf"
  "fmul NInf (Fin 100) = NInf" "fmul NaN (Fin 100) = NaN"
  by (simp_all add: fmul_def is_nan_def is_inf_def is_zero_def real_of_def signed_zero_def
      signed_inf_def)

lemma fadd_Fin: "fadd (Fin a) (Fin b) = Fin (a + b)"
  by (simp add: fadd_def is_nan_def is_inf_def is_zero_def real_of_def signed_zero_def)

lemma wrap64_in_range: "- (2 ^ 63) \<le> n \<Longrightarrow> n < 2 ^ 63 \<Longrightarrow> wrap64 n = n"
  by (simp add: wrap64_def)

lemma derive_keeps_raw:
  "likes (derive r) = likes r" "comments (derive r) = comments r"
  "shares (derive r) = shares r" "views (derive r) = views r"
  "watch_time (derive r) = watch_time r"
  by (simp_all add: derive_def)

lemma prepared_row:
  assumes "r \<in> set (m_rows (prepare_data vdf cs))"
  shows "engagement_rate r =
           fmul (ndiv (nadd (nadd (likes r) (comments r)) (shares r)) (views r)) (Fin 100)"
    and "avg_watch_time_per_view r = ndiv (watch_time r) (views r)"
    and "like_to_view_ratio r = ndiv (likes r) (views r)"
    and "share_to_view_ratio r = ndiv (shares r) (views r)"
proof -
  from assms obtain r0 where r: "r = derive_retention (has_retention_rate vdf) (derive r0)"
    by (auto simp: prepare_data_def)
  show "engagement_rate r =
           fmul (ndiv (nadd (nadd (likes r) (comments r)) (shares r)) (views r)) (Fin 100)"
    and "avg_watch_time_per_view r = ndiv (watch_time r) (views r)"
    and "like_to_view_ratio r = ndiv (likes r) (views r)"
    and "share_to_view_ratio r = ndiv (shares r) (views r)"
    unfolding r by (simp_all add: derive_retention_def derive_def)
qed

text \<open>The loader's four columns follow the same formulas on the raw counters of the row.\<close>

lemma loader_row:
  assumes "d \<in> set (calculate_derived_metrics vs)"
  shows "d_engagement_rate d =
           fmul (ndiv (nadd (nadd (likes d) (comments d)) (shares d)) (views d)) (Fin 100)"
    and "d_avg_watch_time_per_view d = ndiv (watch_time d) (views d)"
    and "d_like_to_view_ratio d = ndiv (likes d) (views d)"
    and "d_share_to_view_ratio d = ndiv (shares d) (views d)"
proof -
  from assms obtain v where d: "d = video.extend v
       (dvideo.fields
          (fmul (ndiv (nadd (nadd (likes v) (comments v)) (shares v)) (views v)) (Fin 100))
          (ndiv (watch_time v) (views v))
          (ndiv (likes v) (views v))
          (ndiv (shares v) (views v)))"
    by (auto simp: calculate_derived_metrics_def)
  show "d_engagement_rate d =
           fmul (ndiv (nadd (nadd (likes d) (comments d)) (shares d)) (views d)) (Fin 100)"
    and "d_avg_watch_time_per_view d = ndiv (watch_time d) (views d)"
    and "d_like_to_view_ratio d = ndiv (likes d) (views d)"
    and "d_share_to_view_ratio d = ndiv (shares d) (views d)"
    unfolding d by (simp_all add: video.extend_def dvideo.fields_def)
qed

lemma example_rows:
  "m_rows (prepare_data example_videos []) =
     [derive (join_row (example_video ''a'' 100 10) None),
      derive (join_row (example_video ''b'' 0 5) None),
      derive (join_row (example_video ''c'' 50 5) None)]"
  by (simp add: prepare_data_def merge_left_def derive_retention_def example_videos_def)

lemma edge_rows:
  "m_rows (prepare_data edge_videos []) =
     [derive (join_row ((example_video ''w'' 1 (2 ^ 62))\<lparr> comments := IntCell (2 ^ 62) \<rparr>) None),
      derive (join_row ((example_video ''z'' 0 5)\<lparr> views := FloatCell NZero \<rparr>) None)]"
  by (simp add: prepare_data_def merge_left_def derive_retention_def edge_videos_def)

text \<open>
  C1, as the code has it. Take a row of the merged table whose likes, shares and
  watch time are numbers and whose sum \<open>likes + comments + shares\<close>, as the code
  computes it, is the number \<open>n\<close>. When \<open>views\<close> is positive,
  \<open>engagement_rate = n / views * 100\<close>, \<open>avg_watch_time_per_view = watch_time / views\<close>,
  \<open>like_to_view_ratio = likes / views\<close> and \<open>share_to_view_ratio = shares / views\<close>.
  When \<open>views\<close> is zero nothing is raised, and each ratio is NaN only if its numerator is
  zero; otherwise it is an infinity: with the sign of the numerator when \<open>views\<close> is an
  integer zero or the positive float zero, with the opposite sign when \<open>views\<close> is the
  negative float zero. The sum \<open>n\<close> is \<open>likes + comments + shares\<close> for float columns,
  and for int64 columns when neither addition leaves the int64 range; in general the
  sum of int64 columns wraps around at each addition.
\<close>

theorem derived_metrics_of_merged_row:
  assumes "r \<in> set (m_rows (prepare_data vdf cs))"
    and "to_float (likes r) = Fin l" and "to_float (shares r) = Fin s"
    and "to_float (watch_time r) = Fin w"
    and "to_float (nadd (nadd (likes r) (comments r)) (shares r)) = Fin n"
  shows "(\<forall>v. to_float (views r) = Fin v \<and> 0 < v \<longrightarrow>
            engagement_rate r = Fin (n / v * 100) \<and>
            avg_watch_time_per_view r = Fin (w / v) \<and>
            like_to_view_ratio r = Fin (l / v) \<and>
            share_to_view_ratio r = Fin (s / v)) \<and>
         (to_float (views r) = Fin 0 \<longrightarrow>
            engagement_rate r = (if 0 < n then PInf else if n < 0 then NInf else NaN) \<and>
            avg_watch_time_per_view r = (if 0 < w then PInf else if w < 0 then NInf else NaN) \<and>
            like_to_view_ratio r = (if 0 < l then PInf else if l < 0 then NInf else NaN) \<and>
            share_to_view_ratio r = (if 0 < s then PInf else if s < 0 then NInf else NaN)) \<and>
         (to_float (views r) = NZero \<longrightarrow>
            engagement_rate r = (if 0 < n then NInf else if n < 0 then PInf else NaN) \<and>
            avg_watch_time_per_view r = (if 0 < w then NInf else if w < 0 then PInf else NaN) \<and>
            like_to_view_ratio r = (if 0 < l then NInf else if l < 0 then PInf else NaN) \<and>
            share_to_view_ratio r = (if 0 < s then NInf else if s < 0 then PInf else NaN)) \<and>
         (\<forall>a b c. likes r = IntCell a \<and> comments r = IntCell b \<and> shares r = IntCell c \<longrightarrow>
            n = real_of_int (wrap64 (wrap64 (a + b) + c)) \<and>
            (- (2 ^ 63) \<le> a + b \<and> a + b < 2 ^ 63 \<and>
             - (2 ^ 63) \<le> a + b + c \<and> a + b + c < 2 ^ 63 \<longrightarrow>
               n = real_of_int a + real_of_int b + real_of_int c)) \<and>
         (\<forall>a b c. likes r = FloatCell (Fin a) \<and> comments r = FloatCell (Fin b) \<and>
                  shares r = FloatCell (Fin c) \<longrightarrow> n = a + b + c)"
proof -
  note p = prepared_row [OF assms(1)]
  have pos: "engagement_rate r = Fin (n / v * 100) \<and>
            avg_watch_time_per_view r = Fin (w / v) \<and>
            like_to_view_ratio r = Fin (l / v) \<and>
            share_to_view_ratio r = Fin (s / v)"
    if "to_float (views r) = Fin v" "0 < v" for v
    using that assms(2-5) by (simp add: p ndiv_def fdiv_Fin_pos fmul_hundred)
  have zero: "engagement_rate r = (if 0 < n then PInf else if n < 0 then NInf else NaN) \<and>
            avg_watch_time_per_view r = (if 0 < w then PInf else if w < 0 then NInf else NaN) \<and>
            like_to_view_ratio r = (if 0 < l then PInf else if l < 0 then NInf else NaN) \<and>
            share_to_view_ratio r = (if 0 < s then PInf else if s < 0 then NInf else NaN)"
    if "to_float (views r) = Fin 0"
    using that assms(2-5) by (simp add: p ndiv_def fdiv_Fin_zero fmul_hundred)
  have nzero: "engagement_rate r = (if 0 < n then NInf else if n < 0 then PInf else NaN) \<and>
            avg_watch_time_per_view r = (if 0 < w then NInf else if w < 0 then PInf else NaN) \<and>
            like_to_view_ratio r = (if 0 < l then NInf else if l < 0 then PInf else NaN) \<and>
            share_to_view_ratio r = (if 0 < s then NInf else if s < 0 then PInf else NaN)"
    if "to_float (views r) = NZero"
    using that assms(2-5) by (simp add: p ndiv_def fdiv_Fin_nzero fmul_hundred)
  have ints: "n = real_of_int (wrap64 (wrap64 (a + b) + c)) \<and>
            (- (2 ^ 63) \<le> a + b \<and> a + b < 2 ^ 63 \<and>
             - (2 ^ 63) \<le> a + b + c \<and> a + b + c < 2 ^ 63 \<longrightarrow>
               n = real_of_int a + real_of_int b + real_of_int c)"
    if "likes r = IntCell a" "comments r = IntCell b" "shares r = IntCell c" for a b c
    using that assms(5) by (auto simp: wrap64_in_range)
  have floats: "n = a + b + c"
    if "likes r = FloatCell (Fin a)" "comments r = FloatCell (Fin b)" "shares r = FloatCell (Fin c)"
    for a b c
    using that assms(5) by (simp add: fadd_Fin)
  show ?thesis
    using pos zero nzero ints floats by blast
qed


lemma example_raw:
  "views (m_rows (prepare_data example_videos []) ! 0) = IntCell 100"
  "likes (m_rows (prepare_data example_videos []) ! 0) = IntCell 10"
  "comments (m_rows (prepare_data example_videos []) ! 0) = IntCell 0"
  "shares (m_rows (prepare_data example_videos []) ! 0) = IntCell 0"
  "watch_time (m_rows (prepare_data example_videos []) ! 0) = IntCell 0"
  "views (m_rows (prepare_data example_videos []) ! 1) = IntCell 0"
  "likes (m_rows (prepare_data example_videos []) ! 1) = IntCell 5"
  "comments (m_rows (prepare_data example_videos []) ! 1) = IntCell 0"
  "shares (m_rows (prepare_data example_videos []) ! 1) = IntCell 0"
  "watch_time (m_rows (prepare_data example_videos []) ! 1) = IntCell 0"
  by (simp_all add: example_rows example_video_def derive_def join_row_def
      video.extend_def arow.fields_def)

lemma edge_raw:
  "views (m_rows (prepare_data edge_videos []) ! 0) = IntCell 1"
  "likes (m_rows (prepare_data edge_videos []) ! 0) = IntCell (2 ^ 62)"
  "comments (m_rows (prepare_data edge_videos []) ! 0) = IntCell (2 ^ 62)"
  "shares (m_rows (prepare_data edge_videos []) ! 0) = IntCell 0"
  "watch_time (m_rows (prepare_data edge_videos []) ! 0) = IntCell 0"
  "views (m_rows (prepare_data edge_videos []) ! 1) = FloatCell NZero"
  "likes (m_rows (prepare_data edge_videos []) ! 1) = IntCell 5"
  "comments (m_rows (prepare_data edge_videos []) ! 1) = IntCell 0"
  "shares (m_rows (prepare_data edge_videos []) ! 1) = IntCell 0"
  "watch_time (m_rows (prepare_data edge_videos []) ! 1) = IntCell 0"
  by (simp_all add: edge_rows example_video_def derive_def join_row_def
      video.extend_def arow.fields_def)

text \<open>
  The first two videos of the scenario, the video whose int64 sum wraps around to
  \<open>- 2^63\<close>, and the video with a view count of negative zero.
\<close>

theorem derived_metrics_of_merged_row_witness:
  "engagement_rate (m_rows (prepare_data example_videos []) ! 0) = Fin 10 \<and>
   like_to_view_ratio (m_rows (prepare_data example_videos []) ! 0) = Fin (1 / 10) \<and>
   engagement_rate (m_rows (prepare_data example_videos []) ! 1) = PInf \<and>
   share_to_view_ratio (m_rows (prepare_data example_videos []) ! 1) = NaN \<and>
   engagement_rate (m_rows (prepare_data edge_videos []) ! 0) =
     Fin (- 922337203685477580800) \<and>
   engagement_rate (m_rows (prepare_data edge_videos []) ! 1) = NInf \<and>
   like_to_view_ratio (m_rows (prepare_data edge_videos []) ! 1) = NInf"
proof -
  let ?ex = "m_rows (prepare_data example_videos [])"
  let ?ed = "m_rows (prepare_data edge_videos [])"
  have in0: "?ex ! 0 \<in> set ?ex" and in1: "?ex ! 1 \<in> set ?ex"
    by (simp_all add: example_rows)
  have ie0: "?ed ! 0 \<in> set ?ed" and ie1: "?ed ! 1 \<in> set ?ed"
    by (simp_all add: edge_rows)
  have a: "engagement_rate (?ex ! 0) = Fin 10 \<and> like_to_view_ratio (?ex ! 0) = Fin (1 / 10)"
    using derived_metrics_of_merged_row [OF in0, of 10 0 0 10]
    by (simp add: example_raw example_raw [unfolded One_nat_def] wrap64_def)
  have b: "engagement_rate (?ex ! 1) = PInf \<and> share_to_view_ratio (?ex ! 1) = NaN"
    using derived_metrics_of_merged_row [OF in1, of 5 0 0 5]
    by (simp add: example_raw example_raw [unfolded One_nat_def] wrap64_def)
  have c: "engagement_rate (?ed ! 0) = Fin (- 922337203685477580800)"
    using derived_metrics_of_merged_row [OF ie0, of "2 ^ 62" 0 0 "- (2 ^ 63)"]
    by (simp add: edge_raw edge_raw [unfolded One_nat_def] wrap64_def)
  have d: "engagement_rate (?ed ! 1) = NInf \<and> like_to_view_ratio (?ed ! 1) = NInf"
    using derived_metrics_of_merged_row [OF ie1, of 5 0 0 5]
    by (simp add: edge_raw edge_raw [unfolded One_nat_def] wrap64_def)
  show ?thesis using a b c d by blast
qed

text \<open>
  The claim as the specification states it fails on the specification's own scenario: the
  second video has no views and five likes, and its engagement rate and like ratio are
  plus infinity, not NaN.
\<close>

theorem zero_views_not_nan_counterexample:
  "to_float (views (m_rows (prepare_data example_videos []) ! 1)) = Fin 0 \<and>
   engagement_rate (m_rows (prepare_data example_videos []) ! 1) = PInf \<and>
   like_to_view_ratio (m_rows (prepare_data example_videos []) ! 1) = PInf \<and>
   \<not> is_nan (engagement_rate (m_rows (prepare_data example_videos []) ! 1))"
proof -
  have "m_rows (prepare_data example_videos []) ! 1 \<in> set (m_rows (prepare_data example_videos []))"
    by (simp add: example_rows)
  from prepared_row [OF this] show ?thesis
    by (simp add: example_raw [unfolded One_nat_def] ndiv_def fdiv_Fin_zero fmul_hundred
        is_nan_def wrap64_def)
qed

section \<open>Grouping and duration bins\<close>

lemma cut_duration_intervals:
  "cut_duration (Fin x) =
     (if 0 < x \<and> x \<le> 15 then Some ''0-15s''
      else if 15 < x \<and> x \<le> 30 then Some ''15-30s''
      else if 30 < x \<and> x \<le> 45 then Some ''30-45s''
      else if 45 < x \<and> x \<le> 60 then Some ''45-60s''
      else if 60 < x \<and> x \<le> 100 then Some ''60s+''
      else None)"
  by (simp add: duration_bins_def duration_labels_def)

lemma set_map_filter: "set (List.map_filter key rs) = {k. \<exists>r\<in>set rs. key r = Some k}"
proof (induction rs)
  case Nil
  then show ?case by (simp add: List.map_filter_simps)
next
  case (Cons r rs)
  then show ?case by (cases "key r") (auto simp: List.map_filter_simps)
qed

lemma set_group_keys: "set (group_keys key rs) = {k. \<exists>r\<in>set rs. key r = Some k}"
  by (simp add: group_keys_def set_map_filter)

lemma distinct_group_keys: "distinct (group_keys key rs)"
  by (simp add: group_keys_def)

lemma map_fst_groupby: "map fst (groupby key rs) = group_keys key rs"
  by (simp add: groupby_def comp_def)

lemma length_groupby: "length (groupby key rs) = card {k. \<exists>r\<in>set rs. key r = Some k}"
proof -
  have "length (groupby key rs) = length (group_keys key rs)" by (simp add: groupby_def)
  also have "\<dots> = card (set (group_keys key rs))"
    by (simp add: distinct_card distinct_group_keys)
  finally show ?thesis by (simp add: set_group_keys)
qed

lemma map_fst_format: "map fst (format_performance_analysis m) = group_keys format_type (m_rows m)"
  by (simp add: format_performance_analysis_def comp_def case_prod_unfold map_fst_groupby[symmetric])

lemma map_fst_niche: "map fst (niche_analysis m) = group_keys niche (m_rows m)"
  by (simp add: niche_analysis_def comp_def case_prod_unfold map_fst_groupby[symmetric])

lemma map_fst_creator: "map fst (creator_stats m) = group_keys creator_key (m_rows m)"
  by (simp add: creator_stats_def comp_def case_prod_unfold map_fst_groupby[symmetric])

lemma map_fst_groupby_categorical:
  "map fst (groupby_categorical ob cats krs) =
     (if ob then filter (\<lambda>c. Some c \<in> set (map fst krs)) cats else cats)"
  by (simp add: groupby_categorical_def comp_def)

lemma map_fst_duration:
  "map fst (fst (duration_analysis pv st)) =
     (if observed_default pv
      then filter (\<lambda>c. \<exists>r\<in>set (m_rows (merged st)). cut_duration (duration_sec r) = Some c) duration_labels
      else duration_labels)"
proof -
  have *: "(Some c \<in> (\<lambda>x. cut_duration (duration_sec x)) ` set rs)
     = (\<exists>r\<in>set rs. cut_duration (duration_sec r) = Some c)" for c and rs :: "arow list"
    unfolding image_iff by metis
  show ?thesis
    by (simp add: duration_analysis_def Let_def comp_def case_prod_unfold duration_groups_def
      map_fst_groupby_categorical assign_duration_bin_def *)
qed

lemma cut_duration_label: "cut_duration d = Some l \<Longrightarrow> l \<in> set duration_labels"
  by (cases d) (auto simp: duration_bins_def duration_labels_def split: if_splits)

lemma distinct_duration_labels: "distinct duration_labels"
  by (simp add: duration_labels_def)

lemma long_rows:
  "m_rows (merged (init_analyzer long_videos [])) =
     [derive (join_row ((example_video ''d'' 100 10)\<lparr> duration_sec := Fin 120 \<rparr>) None)]"
  by (simp add: init_analyzer_def prepare_data_def merge_left_def derive_retention_def
      long_videos_def)

lemma long_durations:
  "map duration_sec (m_rows (merged (init_analyzer long_videos []))) = [Fin 120]"
  by (simp add: long_rows derive_def join_row_def example_video_def video.extend_def
      arow.fields_def)

lemma example_durations:
  "map duration_sec (m_rows (merged (init_analyzer example_videos []))) = [Fin 10, Fin 10, Fin 10]"
  by (simp add: init_analyzer_def example_rows derive_def join_row_def example_video_def
      video.extend_def arow.fields_def)

text \<open>
  C9. The duration bin of a row is given by the intervals (0,15], (15,30], (30,45],
  (45,60] and (60,100], each open on the left and closed on the right: 15 seconds fall
  in \<open>0-15s\<close> and 15.0001 seconds in \<open>15-30s\<close>. This is the column that
  \<^verbatim>\<open>duration_analysis\<close> writes for every row.
\<close>

theorem duration_bucket_intervals:
  "cut_duration (Fin x) =
     (if 0 < x \<and> x \<le> 15 then Some ''0-15s''
      else if 15 < x \<and> x \<le> 30 then Some ''15-30s''
      else if 30 < x \<and> x \<le> 45 then Some ''30-45s''
      else if 45 < x \<and> x \<le> 60 then Some ''45-60s''
      else if 60 < x \<and> x \<le> 100 then Some ''60s+''
      else None) \<and>
   cut_duration (Fin 15) = Some ''0-15s'' \<and>
   cut_duration (Fin (150001 / 10000)) = Some ''15-30s'' \<and>
   duration_bin (merged (snd (duration_analysis pv st))) =
     Some (map (\<lambda>r. cut_duration (duration_sec r)) (m_rows (merged st)))"
  by (simp add: duration_bins_def duration_labels_def duration_analysis_def Let_def
      assign_duration_bin_def comp_def)

text \<open>The bins at 45, 0 and 100 seconds, and the column of the example table.\<close>

theorem duration_bucket_intervals_witness:
  "cut_duration (Fin 45) = Some ''30-45s'' \<and> cut_duration (Fin 0) = None \<and>
   cut_duration (Fin 100) = Some ''60s+'' \<and>
   duration_bin (merged (snd (duration_analysis Pandas2 (init_analyzer example_videos [])))) =
     Some [Some ''0-15s'', Some ''0-15s'', Some ''0-15s'']"
proof -
  have d: "map (\<lambda>r. cut_duration (duration_sec r)) (m_rows (merged (init_analyzer example_videos [])))
     = map cut_duration (map duration_sec (m_rows (merged (init_analyzer example_videos []))))"
    by (simp add: comp_def)
  show ?thesis
    using duration_bucket_intervals [of 45 Pandas2 "init_analyzer example_videos []"]
      duration_bucket_intervals [of 0] duration_bucket_intervals [of 100]
      duration_bucket_intervals [of 10]
    by (simp add: d example_durations)
qed

lemma length_filter_distinct:
  assumes "distinct xs" "\<And>x. P x \<Longrightarrow> x \<in> set xs"
  shows "length (filter P xs) = card {x. P x}"
proof -
  have "set (filter P xs) = {x. P x}" using assms(2) by auto
  moreover have "distinct (filter P xs)" using assms(1) by simp
  ultimately show ?thesis by (metis distinct_card)
qed

text \<open>
  C2, as the code has it. Grouped by format, by niche, and by creator name and niche, the
  summary has exactly one row for each key value that some input row has (a row with a
  missing key has no key value), and none for any other value. Grouped by duration bin,
  the same holds when the frame library lists observed categories only (its default from
  version 3.0); under the default before 3.0 the summary has one row for each of the five
  labels, whether a row has that label or not.
\<close>

theorem summary_rows_match_observed_keys:
  "length (format_performance_analysis m) =
     card {k. \<exists>r\<in>set (m_rows m). format_type r = Some k} \<and>
   set (map fst (format_performance_analysis m)) =
     {k. \<exists>r\<in>set (m_rows m). format_type r = Some k} \<and>
   length (niche_analysis m) = card {k. \<exists>r\<in>set (m_rows m). niche r = Some k} \<and>
   set (map fst (niche_analysis m)) = {k. \<exists>r\<in>set (m_rows m). niche r = Some k} \<and>
   length (creator_stats m) = card {k. \<exists>r\<in>set (m_rows m). creator_key r = Some k} \<and>
   set (map fst (creator_stats m)) = {k. \<exists>r\<in>set (m_rows m). creator_key r = Some k} \<and>
   length (fst (duration_analysis Pandas3 st)) =
     card {l. \<exists>r\<in>set (m_rows (merged st)). cut_duration (duration_sec r) = Some l} \<and>
   set (map fst (fst (duration_analysis Pandas3 st))) =
     {l. \<exists>r\<in>set (m_rows (merged st)). cut_duration (duration_sec r) = Some l} \<and>
   map fst (fst (duration_analysis Pandas2 st)) = duration_labels"
proof -
  have len: "length t = length (map fst t)" for t :: "('a \<times> 'b) list" by simp
  have f: "length (format_performance_analysis m) =
     card {k. \<exists>r\<in>set (m_rows m). format_type r = Some k}"
    by (simp add: format_performance_analysis_def length_groupby)
  have n: "length (niche_analysis m) = card {k. \<exists>r\<in>set (m_rows m). niche r = Some k}"
    by (simp add: niche_analysis_def length_groupby)
  have c: "length (creator_stats m) = card {k. \<exists>r\<in>set (m_rows m). creator_key r = Some k}"
    by (simp add: creator_stats_def length_groupby)
  have "length (fst (duration_analysis Pandas3 st)) =
      length (map fst (fst (duration_analysis Pandas3 st)))" by simp
  also have "\<dots> = card {l. \<exists>r\<in>set (m_rows (merged st)). cut_duration (duration_sec r) = Some l}"
    unfolding map_fst_duration
    using length_filter_distinct [OF distinct_duration_labels,
        of "\<lambda>l. \<exists>r\<in>set (m_rows (merged st)). cut_duration (duration_sec r) = Some l"]
    by (auto dest: cut_duration_label)
  finally have d: "length (fst (duration_analysis Pandas3 st)) =
     card {l. \<exists>r\<in>set (m_rows (merged st)). cut_duration (duration_sec r) = Some l}" .
  have ds: "set (map fst (fst (duration_analysis Pandas3 st))) =
     {l. \<exists>r\<in>set (m_rows (merged st)). cut_duration (duration_sec r) = Some l}"
    unfolding map_fst_duration by (auto dest: cut_duration_label)
  show ?thesis
    using f n c d ds
    by (simp add: map_fst_format map_fst_niche map_fst_creator set_group_keys map_fst_duration)
qed

text \<open>
  Under the default before version 3.0 the claim fails for the duration bins: the three
  example videos all last 10 seconds, one bin is present, and the summary has five rows.
\<close>

theorem unobserved_buckets_listed_counterexample:
  "map (cut_duration \<circ> duration_sec) (m_rows (merged (init_analyzer example_videos []))) =
     [Some ''0-15s'', Some ''0-15s'', Some ''0-15s''] \<and>
   map fst (fst (duration_analysis Pandas2 (init_analyzer example_videos []))) =
     [''0-15s'', ''15-30s'', ''30-45s'', ''45-60s'', ''60s+''] \<and>
   length (fst (duration_analysis Pandas2 (init_analyzer example_videos []))) = 5"
proof -
  have a: "map (cut_duration \<circ> duration_sec) (m_rows (merged (init_analyzer example_videos [])))
     = map cut_duration (map duration_sec (m_rows (merged (init_analyzer example_videos []))))"
    by simp
  have b: "map fst (fst (duration_analysis Pandas2 (init_analyzer example_videos []))) =
     [''0-15s'', ''15-30s'', ''30-45s'', ''45-60s'', ''60s+'']"
    by (simp add: map_fst_duration duration_labels_def)
  have "length (fst (duration_analysis Pandas2 (init_analyzer example_videos []))) =
     length (map fst (fst (duration_analysis Pandas2 (init_analyzer example_videos []))))"
    by simp
  also have "\<dots> = 5" unfolding b by simp
  finally show ?thesis
    using b unfolding a example_durations
    by (simp add: duration_bins_def duration_labels_def)
qed

lemma group_of_zip:
  "map snd (filter (\<lambda>kr. fst kr = k) (zip (map f rs) rs)) = filter (\<lambda>r. f r = k) rs"
  by (induction rs) auto

lemma duration_groups_eq:
  "duration_groups pv m =
     map (\<lambda>c. (c, filter (\<lambda>r. cut_duration (duration_sec r) = Some c) (m_rows m)))
       (if observed_default pv
        then filter (\<lambda>c. \<exists>r\<in>set (m_rows m). cut_duration (duration_sec r) = Some c)
               duration_labels
        else duration_labels)"
proof -
  have *: "(Some c \<in> (\<lambda>x. cut_duration (duration_sec x)) ` set rs)
     = (\<exists>r\<in>set rs. cut_duration (duration_sec r) = Some c)" for c and rs :: "arow list"
    unfolding image_iff by metis
  show ?thesis
    unfolding duration_groups_def groupby_categorical_def group_of_zip
    by (simp add: comp_def *)
qed

lemma duration_groups_rows:
  "duration_groups pv (m\<lparr> duration_bin := b \<rparr>) = duration_groups pv m"
  by (simp add: duration_groups_def)

lemma duration_groups_drop_unbucketed:
  "duration_groups pv (m\<lparr> m_rows := filter (\<lambda>r. cut_duration (duration_sec r) \<noteq> None) (m_rows m) \<rparr>)
     = duration_groups pv m"
proof -
  have h: "(z \<noteq> None \<and> z = Some c) = (z = Some c)" for z :: "string option" and c
    by auto
  show ?thesis
    unfolding duration_groups_eq by (simp add: h Bex_def del: not_None_eq)
qed

text \<open>
  C3, as the code has it. A row whose duration lies outside (0, 100] (or is missing) gets
  no bin and belongs to no group: the duration summary is the one of the table without
  such rows, and its labels are among the five fixed ones, so there is no bucket named
  \<open>unbucketed\<close>.
\<close>

theorem unbucketed_rows_are_dropped:
  "set (map fst (fst (duration_analysis pv st))) \<subseteq> set duration_labels \<and>
   ''unbucketed'' \<notin> set (map fst (fst (duration_analysis pv st))) \<and>
   fst (duration_analysis pv st) =
     fst (duration_analysis pv
       (st\<lparr> merged := (merged st)\<lparr> m_rows :=
          filter (\<lambda>r. cut_duration (duration_sec r) \<noteq> None) (m_rows (merged st)) \<rparr> \<rparr>)) \<and>
   (cut_duration (Fin x) = None) = (\<not> (0 < x \<and> x \<le> 100)) \<and>
   cut_duration PInf = None \<and> cut_duration NInf = None \<and> cut_duration NaN = None \<and>
   cut_duration NZero = None"
proof -
  have sub: "set (map fst (fst (duration_analysis pv st))) \<subseteq> set duration_labels"
    unfolding map_fst_duration by auto
  have nb: "''unbucketed'' \<notin> set duration_labels"
    by (simp add: duration_labels_def)
  have eq: "fst (duration_analysis pv st) =
     fst (duration_analysis pv
       (st\<lparr> merged := (merged st)\<lparr> m_rows :=
          filter (\<lambda>r. cut_duration (duration_sec r) \<noteq> None) (m_rows (merged st)) \<rparr> \<rparr>))"
    using duration_groups_drop_unbucketed [of pv "merged st"]
    by (simp add: duration_analysis_def Let_def assign_duration_bin_def duration_groups_rows)
  have rng: "(cut_duration (Fin x) = None) = (\<not> (0 < x \<and> x \<le> 100))"
    by (auto simp: duration_bins_def duration_labels_def)
  have nz: "cut_duration NZero = None"
    by (simp add: duration_bins_def duration_labels_def)
  have inf: "cut_duration PInf = None" "cut_duration NInf = None" "cut_duration NaN = None"
    by simp_all
  show ?thesis using sub nb eq rng nz inf by blast
qed

text \<open>The table with the single video of 120 seconds.\<close>

theorem unbucketed_rows_are_dropped_witness:
  "''unbucketed'' \<notin> set (map fst (fst (duration_analysis Pandas2 (init_analyzer long_videos [])))) \<and>
   cut_duration (Fin 120) = None \<and>
   fst (duration_analysis Pandas3 (init_analyzer long_videos [])) =
     fst (duration_analysis Pandas3
       ((init_analyzer long_videos [])\<lparr> merged :=
          (merged (init_analyzer long_videos []))\<lparr> m_rows := [] \<rparr> \<rparr>))"
proof -
  have e: "filter (\<lambda>r. cut_duration (duration_sec r) \<noteq> None)
     (m_rows (merged (init_analyzer long_videos []))) = []"
    by (simp add: long_rows derive_def join_row_def example_video_def video.extend_def
      arow.fields_def duration_bins_def duration_labels_def)
  have a: "''unbucketed'' \<notin>
      set (map fst (fst (duration_analysis Pandas2 (init_analyzer long_videos []))))"
    using unbucketed_rows_are_dropped [of Pandas2 "init_analyzer long_videos []" 120]
    by blast
  have b: "cut_duration (Fin 120) = None"
    using unbucketed_rows_are_dropped [of Pandas2 "init_analyzer long_videos []" 120]
    by simp
  have c: "fst (duration_analysis Pandas3 (init_analyzer long_videos [])) =
     fst (duration_analysis Pandas3
       ((init_analyzer long_videos [])\<lparr> merged :=
          (merged (init_analyzer long_videos []))\<lparr> m_rows := [] \<rparr> \<rparr>))"
    using unbucketed_rows_are_dropped [of Pandas3 "init_analyzer long_videos []" 120]
    unfolding e by blast
  show ?thesis using a b c by blast
qed

text \<open>
  The claim fails on the video of 120 seconds: with observed categories only the summary
  is empty, and otherwise every one of the five groups is empty; the row is counted
  nowhere.
\<close>

theorem out_of_range_row_vanishes_counterexample:
  "map duration_sec (m_rows (merged (init_analyzer long_videos []))) = [Fin 120] \<and>
   fst (duration_analysis Pandas3 (init_analyzer long_videos [])) = [] \<and>
   duration_groups Pandas2 (merged (init_analyzer long_videos [])) =
     [(''0-15s'', []), (''15-30s'', []), (''30-45s'', []), (''45-60s'', []), (''60s+'', [])] \<and>
   map fst (fst (duration_analysis Pandas2 (init_analyzer long_videos []))) =
     [''0-15s'', ''15-30s'', ''30-45s'', ''45-60s'', ''60s+'']"
proof -
  have c: "map (\<lambda>r. cut_duration (duration_sec r)) (m_rows (merged (init_analyzer long_videos [])))
    = map cut_duration (map duration_sec (m_rows (merged (init_analyzer long_videos []))))"
    by (simp add: comp_def)
  have n: "map (\<lambda>r. cut_duration (duration_sec r)) (m_rows (merged (init_analyzer long_videos [])))
    = [None]"
    unfolding c long_durations by (simp add: duration_bins_def duration_labels_def)
  have none: "\<not> (\<exists>r\<in>set (m_rows (merged (init_analyzer long_videos []))).
              cut_duration (duration_sec r) = Some l)" for l
    using n by (simp add: long_rows)
  have f: "filter (\<lambda>r. cut_duration (duration_sec r) = Some l)
             (m_rows (merged (init_analyzer long_videos []))) = []" for l
    using none [of l] by (simp add: filter_empty_conv)
  have g2: "duration_groups Pandas2 (merged (init_analyzer long_videos [])) =
     [(''0-15s'', []), (''15-30s'', []), (''30-45s'', []), (''45-60s'', []), (''60s+'', [])]"
    unfolding duration_groups_eq by (simp add: f duration_labels_def)
  have g3: "duration_groups Pandas3 (merged (init_analyzer long_videos [])) = []"
    unfolding duration_groups_eq using none by simp
  have d3: "fst (duration_analysis Pandas3 (init_analyzer long_videos [])) = []"
    by (simp add: duration_analysis_def Let_def assign_duration_bin_def duration_groups_rows g3)
  show ?thesis
    using long_durations d3 g2 by (simp add: map_fst_duration duration_labels_def)
qed

section \<open>Clustering: the checks on the cluster count\<close>

lemma column_scale_nonzero: "column_scale col \<noteq> 0"
  by (simp add: column_scale_def Let_def)

lemma scale_cell_finite: "is_finite x \<Longrightarrow> is_finite (scale_cell col x)"
  unfolding scale_cell_def fsub_def
  by (intro finite_fdiv finite_fadd finite_fneg column_scale_nonzero)
     (simp_all add: is_finite_def)

lemma scaler_transform_finite:
  assumes "list_all is_finite (concat X)"
  shows "list_all is_finite (concat (scaler_transform X))"
proof -
  have "is_finite (r ! j)" if "r \<in> set X" "j < length r" for r j
    using assms that by (auto simp: list_all_iff)
  then show ?thesis
    by (auto simp: scaler_transform_def list_all_iff intro: scale_cell_finite)
qed

lemma length_scaler_transform: "length (scaler_transform X) = length X"
  by (simp add: scaler_transform_def)

lemma finite_not_inf: "is_finite x \<Longrightarrow> \<not> (x = PInf \<or> x = NInf)"
  by (cases x) (simp_all add: is_finite_def)

lemma scaler_ok:
  assumes "X \<noteq> []" "list_all is_finite (concat X)"
  shows "scaler_fit_transform X = Inr (scaler_transform X)"
  using assms by (auto simp: scaler_fit_transform_def list_ex_iff list_all_iff dest: finite_not_inf)

lemma kmeans_checked:
  assumes "X \<noteq> []" "list_all is_finite (concat X)"
  shows "kmeans_fit_predict km k (scaler_transform X) =
     (if k < 1 then Inl (InvalidParameterError ''n_clusters'')
      else if int (length X) < k then Inl (TooFewSamples (length X) k)
      else Inr (km (scaler_transform X) (nat k)))"
proof -
  have ne: "scaler_transform X \<noteq> []"
    using assms(1) length_scaler_transform [of X] by (metis length_0_conv)
  have fin: "\<not> list_ex (\<lambda>x. \<not> is_finite x) (concat (scaler_transform X))"
    using scaler_transform_finite [OF assms(2)] by (simp add: list_ex_iff list_all_iff)
  show ?thesis
    unfolding kmeans_fit_predict_def using ne fin by (simp add: length_scaler_transform)
qed

lemma length_feature_matrix: "length (feature_matrix rs) = length rs"
  by (simp add: feature_matrix_def)

text \<open>
  C5, as the code has it. On a table with at least one row whose feature cells are all
  finite: when \<open>k\<close> is less than one or greater than the number of rows (duplicates
  counted), the call fails with an error that names \<open>n_clusters\<close> and the merged table
  gets no cluster column; when \<open>k\<close> is between one and the number of rows the call
  succeeds and writes the column, whatever the number of distinct rows.
\<close>

theorem clustering_parameter_check:
  assumes "m_rows (merged st) \<noteq> []"
    and "list_all is_finite (concat (feature_matrix (m_rows (merged st))))"
  shows "(k < 1 \<or> int (length (m_rows (merged st))) < k \<longrightarrow>
           (\<exists>e. performance_clustering km st k = (Inl e, st) \<and>
                offending_parameter e = Some ''n_clusters'')) \<and>
         (1 \<le> k \<and> k \<le> int (length (m_rows (merged st))) \<longrightarrow>
           (\<exists>t ls. performance_clustering km st k =
                     (Inr t, st\<lparr> merged := (merged st)\<lparr> cluster := Some ls \<rparr> \<rparr>)))"
proof -
  let ?X = "feature_matrix (m_rows (merged st))"
  have ne: "?X \<noteq> []" using assms(1) by (simp add: feature_matrix_def)
  have s: "scaler_fit_transform ?X = Inr (scaler_transform ?X)"
    by (rule scaler_ok [OF ne assms(2)])
  have k: "kmeans_fit_predict km k (scaler_transform ?X) =
     (if k < 1 then Inl (InvalidParameterError ''n_clusters'')
      else if int (length (m_rows (merged st))) < k
        then Inl (TooFewSamples (length (m_rows (merged st))) k)
      else Inr (km (scaler_transform ?X) (nat k)))"
    using kmeans_checked [OF ne assms(2), of km k] by (simp add: length_feature_matrix)
  show ?thesis
    by (auto simp: performance_clustering_def s k)
qed

lemma twin_rows:
  "m_rows (merged (init_analyzer twin_videos [])) =
     [derive (join_row (example_video ''a'' 100 10) None),
      derive (join_row (example_video ''a'' 100 10) None)]"
  by (simp add: init_analyzer_def prepare_data_def merge_left_def derive_retention_def
      twin_videos_def)

lemma twin_features:
  "feature_matrix (m_rows (merged (init_analyzer twin_videos []))) =
     [[Fin 100, Fin 10, Fin 0, Fin 0, Fin 10], [Fin 100, Fin 10, Fin 0, Fin 0, Fin 10]]"
  by (simp add: twin_rows feature_matrix_def cluster_features_def derive_def join_row_def
      example_video_def video.extend_def arow.fields_def cell_arith)

text \<open>Two rows, with \<open>k\<close> of 0, 3 and 1.\<close>

theorem clustering_parameter_check_witness:
  "(\<exists>e. performance_clustering one_cluster (init_analyzer twin_videos []) 0 =
          (Inl e, init_analyzer twin_videos []) \<and> offending_parameter e = Some ''n_clusters'') \<and>
   (\<exists>e. performance_clustering one_cluster (init_analyzer twin_videos []) 3 =
          (Inl e, init_analyzer twin_videos []) \<and> offending_parameter e = Some ''n_clusters'') \<and>
   (\<exists>t ls. performance_clustering one_cluster (init_analyzer twin_videos []) 1 =
      (Inr t, (init_analyzer twin_videos [])
                \<lparr> merged := (merged (init_analyzer twin_videos []))\<lparr> cluster := Some ls \<rparr> \<rparr>))"
proof -
  have ne: "m_rows (merged (init_analyzer twin_videos [])) \<noteq> []"
    by (simp add: twin_rows)
  have fin: "list_all is_finite
      (concat (feature_matrix (m_rows (merged (init_analyzer twin_videos [])))))"
    by (simp add: twin_features is_finite_def)
  have len: "length (m_rows (merged (init_analyzer twin_videos []))) = 2"
    by (simp add: twin_rows)
  show ?thesis
    using clustering_parameter_check [OF ne fin, of 0 one_cluster]
      clustering_parameter_check [OF ne fin, of 3 one_cluster]
      clustering_parameter_check [OF ne fin, of 1 one_cluster]
    unfolding len by simp
qed

lemma empty_features:
  "feature_matrix (m_rows (merged (init_analyzer \<lparr> v_rows = [], has_retention_rate = True \<rparr> []))) = []"
  by (simp add: init_analyzer_def prepare_data_def merge_left_def feature_matrix_def)

lemma twin_clustering:
  "performance_clustering one_cluster (init_analyzer twin_videos []) 2 =
     (Inr (cluster_analysis [0, 0] (m_rows (merged (init_analyzer twin_videos [])))),
      (init_analyzer twin_videos [])
        \<lparr> merged := (merged (init_analyzer twin_videos []))\<lparr> cluster := Some [0, 0] \<rparr> \<rparr>)"
proof -
  have ne: "feature_matrix (m_rows (merged (init_analyzer twin_videos []))) \<noteq> []"
    by (simp add: twin_features)
  have fin: "list_all is_finite
      (concat (feature_matrix (m_rows (merged (init_analyzer twin_videos [])))))"
    by (simp add: twin_features is_finite_def)
  have s: "scaler_fit_transform (feature_matrix (m_rows (merged (init_analyzer twin_videos []))))
     = Inr (scaler_transform (feature_matrix (m_rows (merged (init_analyzer twin_videos [])))))"
    by (rule scaler_ok [OF ne fin])
  have k: "kmeans_fit_predict one_cluster 2
      (scaler_transform (feature_matrix (m_rows (merged (init_analyzer twin_videos []))))) =
      Inr [0, 0]"
    unfolding kmeans_checked [OF ne fin]
    by (simp add: twin_features one_cluster_def length_scaler_transform)
  show ?thesis
    by (simp add: performance_clustering_def s k)
qed

text \<open>
  The claim fails on two rows that are the same video with \<open>k = 2\<close>: there is one
  distinct row, and the call succeeds. It also fails on the empty table with \<open>k = 1\<close>:
  the error comes from the scaler and names no parameter.
\<close>

theorem duplicate_rows_accepted_counterexample:
  "length (remdups (m_rows (merged (init_analyzer twin_videos [])))) = 1 \<and>
   \<not> isl (fst (performance_clustering one_cluster (init_analyzer twin_videos []) 2)) \<and>
   cluster (merged (snd (performance_clustering one_cluster (init_analyzer twin_videos []) 2))) =
     Some [0, 0] \<and>
   fst (performance_clustering one_cluster
          (init_analyzer \<lparr> v_rows = [], has_retention_rate = True \<rparr> []) 1) = Inl NoSamples \<and>
   offending_parameter NoSamples = None"
proof -
  have d: "length (remdups (m_rows (merged (init_analyzer twin_videos [])))) = 1"
    by (simp add: twin_rows)
  have e: "fst (performance_clustering one_cluster
          (init_analyzer \<lparr> v_rows = [], has_retention_rate = True \<rparr> []) 1) = Inl NoSamples"
    by (simp add: performance_clustering_def empty_features scaler_fit_transform_def)
  show ?thesis
    using d e by (simp add: twin_clustering)
qed

section \<open>Facts about the two sorts\<close>

lemma nan_key_least: "(0, 0) \<le> fval_key x"
  by (cases x) simp_all

lemma fval_key_nan: "fval_key x = (0, 0) \<longleftrightarrow> x = NaN"
  by (cases x) simp_all

lemma mset_stable_desc: "mset (stable_desc f xs) = mset xs"
  by (simp add: stable_desc_def)

lemma sorted_stable_desc:
  "sorted_wrt (\<lambda>a b. fval_key (f b) \<le> fval_key (f a)) (stable_desc f xs)"
proof -
  have "sorted (map (fval_key \<circ> f) (sort_key (fval_key \<circ> f) (rev xs)))"
    by (rule sorted_sort_key)
  then have "sorted_wrt (\<lambda>a b. fval_key (f a) \<le> fval_key (f b)) (sort_key (fval_key \<circ> f) (rev xs))"
    by (simp add: sorted_map)
  then show ?thesis
    by (simp add: stable_desc_def sorted_wrt_rev)
qed

text \<open>Stability: the rows with a given key come out in the order they went in.\<close>

lemma stable_stable_desc:
  "filter (\<lambda>x. fval_key (f x) = k) (stable_desc f xs) = filter (\<lambda>x. fval_key (f x) = k) xs"
proof -
  have "filter (\<lambda>x. (fval_key \<circ> f) x = k) (sort_key (fval_key \<circ> f) (rev xs))
      = filter (\<lambda>x. (fval_key \<circ> f) x = k) (rev xs)"
    by (rule sort_key_stable)
  then show ?thesis
    by (simp add: stable_desc_def rev_filter [symmetric])
qed

lemma mset_argsort_desc: "mset (argsort_desc ties ks) = mset [0..<length ks]"
  by (simp add: argsort_desc_def)

lemma set_argsort_desc: "set (argsort_desc ties ks) = {0..<length ks}"
  using mset_argsort_desc [of ties ks] by (metis mset_eq_setD set_upt)

lemma mset_map_nth:
  assumes "mset p = mset [0..<length ys]"
  shows "mset (map (\<lambda>i. ys ! i) p) = mset ys"
proof -
  have "mset (map (\<lambda>i. ys ! i) p) = image_mset (\<lambda>i. ys ! i) (mset p)" by simp
  also have "\<dots> = image_mset (\<lambda>i. ys ! i) (mset [0..<length ys])" using assms by simp
  also have "\<dots> = mset (map (\<lambda>i. ys ! i) [0..<length ys])" by simp
  also have "\<dots> = mset ys" by (simp add: map_nth)
  finally show ?thesis .
qed

lemma sorted_argsort_desc:
  "sorted_wrt (\<lambda>i j. ks ! j \<le> ks ! i) (argsort_desc ties ks)"
proof -
  let ?g = "\<lambda>i. (ks ! i, ties ks i)"
  have "sorted (map ?g (sort_key ?g [0..<length ks]))"
    by (rule sorted_sort_key)
  then have "sorted_wrt (\<lambda>i j. ?g i \<le> ?g j) (sort_key ?g [0..<length ks])"
    by (simp add: sorted_map)
  then have "sorted_wrt (\<lambda>i j. ks ! i \<le> ks ! j) (sort_key ?g [0..<length ks])"
    by (rule sorted_wrt_mono_rel [rotated]) auto
  then show ?thesis
    by (simp add: argsort_desc_def sorted_wrt_rev)
qed

lemma mset_sort_values_desc: "mset (sort_values_desc ties f xs) = mset xs"
proof -
  let ?ys = "filter (\<lambda>x. \<not> is_nan (f x)) xs"
  have "mset (map (\<lambda>i. ?ys ! i) (argsort_desc ties (map (fval_key \<circ> f) ?ys))) = mset ?ys"
    by (rule mset_map_nth) (simp add: mset_argsort_desc)
  then show ?thesis
    by (simp add: sort_values_desc_def Let_def del: mset_map mset_filter)
       (metis multiset_partition mset_filter add.commute)
qed

lemma set_sort_values_desc: "set (sort_values_desc ties f xs) = set xs"
  using mset_sort_values_desc [of ties f xs] by (rule mset_eq_setD)

lemma length_sort_values_desc: "length (sort_values_desc ties f xs) = length xs"
  using mset_sort_values_desc [of ties f xs] by (rule mset_eq_length)

lemma sorted_sort_values_desc:
  "sorted_wrt (\<lambda>a b. fval_key (f b) \<le> fval_key (f a)) (sort_values_desc ties f xs)"
proof -
  let ?ys = "filter (\<lambda>x. \<not> is_nan (f x)) xs"
  let ?ks = "map (fval_key \<circ> f) ?ys"
  let ?L = "argsort_desc ties ?ks"
  have "sorted_wrt (\<lambda>i j. ?ks ! j \<le> ?ks ! i) ?L"
    by (rule sorted_argsort_desc)
  then have "sorted_wrt (\<lambda>i j. fval_key (f (?ys ! j)) \<le> fval_key (f (?ys ! i))) ?L"
  proof (rule sorted_wrt_mono_rel [rotated])
    fix i j assume "i \<in> set ?L" "j \<in> set ?L" "?ks ! j \<le> ?ks ! i"
    then show "fval_key (f (?ys ! j)) \<le> fval_key (f (?ys ! i))"
      by (simp add: set_argsort_desc)
  qed
  then have a: "sorted_wrt (\<lambda>a b. fval_key (f b) \<le> fval_key (f a)) (map (\<lambda>i. ?ys ! i) ?L)"
    by (simp add: sorted_wrt_map)
  have b: "sorted_wrt (\<lambda>a b. fval_key (f b) \<le> fval_key (f a)) (filter (\<lambda>x. is_nan (f x)) xs)"
    by (induction xs) (auto simp: is_nan_iff)
  show ?thesis
    unfolding sort_values_desc_def Let_def
    using a b by (auto simp: sorted_wrt_append is_nan_iff nan_key_least)
qed

text \<open>Two rows with different cells come out the larger first, whatever the tie order.\<close>

lemma sort_values_desc_pair:
  assumes "fval_key (f a) < fval_key (f b)" "\<not> is_nan (f a)" "\<not> is_nan (f b)"
  shows "sort_values_desc ties f [a, b] = [b, a]"
proof -
  have "\<not> ((fval_key (f b), t1) \<le> (fval_key (f a), t0))" for t0 t1 :: nat
    using assms(1) by auto
  then show ?thesis
    using assms by (simp add: sort_values_desc_def argsort_desc_def Let_def)
qed

lemma sort_values_desc_Nil: "sort_values_desc ties f [] = []"
  by (simp add: sort_values_desc_def argsort_desc_def)

section \<open>Creator ranking: the index of the result\<close>

lemma amy_fields:
  "c_creator_id amy = Some 1" "c_creator_name amy = Some ''Amy''" "c_niche amy = Some ''food''"
  "c_followers amy = Fin 10"
  by (simp_all add: amy_def)

lemma zed_fields:
  "c_creator_id zed = Some 2" "c_creator_name zed = Some ''Zed''" "c_niche zed = Some ''tech''"
  "c_followers zed = Fin 20"
  by (simp_all add: zed_def)

lemma map_filter_of_map: "List.map_filter f xs = List.map_filter id (map f xs)"
  by (induction xs) (simp_all add: List.map_filter_simps split: option.splits)

lemma ranking_rows:
  "m_rows (merged (init_analyzer ranking_videos [amy, zed])) =
     [derive (join_row (ranked_video ''v1'' 1 (1 / 2)) (Some amy)),
      derive (join_row (ranked_video ''v2'' 2 (9 / 10)) (Some zed))]"
  by (simp add: init_analyzer_def prepare_data_def merge_left_def derive_retention_def
      ranking_videos_def ranked_video_def example_video_def amy_fields zed_fields)

lemma ranking_keys:
  "map creator_key (m_rows (merged (init_analyzer ranking_videos [amy, zed]))) =
     [Some (''Amy'', ''food''), Some (''Zed'', ''tech'')]"
  by (simp add: ranking_rows creator_key_def derive_def join_row_def video.extend_def
      arow.fields_def amy_fields zed_fields)

lemma ranking_retention:
  "map retention_rate (m_rows (merged (init_analyzer ranking_videos [amy, zed]))) =
     [Fin (1 / 2), Fin (9 / 10)]"
  by (simp add: ranking_rows derive_def join_row_def video.extend_def
      arow.fields_def ranked_video_def example_video_def)


lemma ranking_group_keys:
  "group_keys creator_key (m_rows (merged (init_analyzer ranking_videos [amy, zed]))) =
     [(''Amy'', ''food''), (''Zed'', ''tech'')]"
  unfolding group_keys_def map_filter_of_map [of creator_key] ranking_keys
  by (simp add: List.map_filter_simps)

lemma ranking_stats_retention:
  "map (\<lambda>kr. (fst kr, cell (snd kr) ''retention_rate''))
     (creator_stats (merged (init_analyzer ranking_videos [amy, zed]))) =
   [((''Amy'', ''food''), Fin (1 / 2)), ((''Zed'', ''tech''), Fin (9 / 10))]"
  apply (simp add: creator_stats_def groupby_def ranking_group_keys)
  apply (simp add: ranking_rows creator_key_def derive_def join_row_def video.extend_def
      arow.fields_def amy_fields zed_fields)
  apply (simp add: agg_def creator_spec_def plain_columns_def cell_def agg_mean_def dropna_def
      fsum_def ranked_video_def example_video_def rint_def Let_def cell_arith)
  done


lemma merge_followers_index:
  assumes "r \<in> set (merge_followers stats cs)"
  shows "\<exists>i. rc_index r = IntLabel i \<and> i < length (merge_followers stats cs)"
proof -
  define joined where "joined =
    concat (map (\<lambda>((name, nic), r).
      (case filter (\<lambda>c. c_creator_name c = Some name) cs of
         [] \<Rightarrow> [(name, r, NaN)]
       | ms \<Rightarrow> map (\<lambda>c. (name, r, c_followers c)) ms)) stats)"
  have mf: "merge_followers stats cs =
     map (\<lambda>(i, (name, r, f)).
            \<lparr> rc_index = IntLabel i, rc_creator_name = name, rc_stats = r, rc_followers = f \<rparr>)
       (enumerate 0 joined)"
    by (simp add: merge_followers_def joined_def Let_def)
  from assms obtain i x where ix: "(i, x) \<in> set (enumerate 0 joined)"
    and r: "r = (\<lambda>(i, (name, r, f)).
            \<lparr> rc_index = IntLabel i, rc_creator_name = name, rc_stats = r, rc_followers = f \<rparr>) (i, x)"
    unfolding mf by auto
  from ix have "i < length joined" by (simp add: in_set_enumerate_eq)
  moreover have "rc_index r = IntLabel i" using r by (simp add: case_prod_unfold)
  moreover have "length (merge_followers stats cs) = length joined" by (simp add: mf)
  ultimately show ?thesis by simp
qed

lemma set_head: "set (head n xs) \<subseteq> set xs"
  by (auto simp: head_def dest: in_set_takeD)

text \<open>
  C10. Every row that \<^verbatim>\<open>creator_performance_ranking\<close> returns is indexed by a row
  position of the table the follower join produced, not by the creator's name or by the
  pair of name and niche; so the first index entry of a result with a row is an integer,
  and the report prints that number.
\<close>

theorem ranked_creators_indexed_by_position:
  "(\<forall>r\<in>set (creator_performance_ranking ties st n).
      \<exists>i. rc_index r = IntLabel i \<and>
          i < length (merge_followers (creator_stats (merged st)) (creators st))) \<and>
   (creator_performance_ranking ties st n \<noteq> [] \<longrightarrow>
      (\<exists>i. rc_index (hd (creator_performance_ranking ties st n)) = IntLabel i \<and>
           str_label (rc_index (hd (creator_performance_ranking ties st n))) = str_nat i))"
proof -
  have all: "\<exists>i. rc_index r = IntLabel i \<and>
          i < length (merge_followers (creator_stats (merged st)) (creators st))"
    if "r \<in> set (creator_performance_ranking ties st n)" for r
  proof -
    from that have "r \<in> set (merge_followers (creator_stats (merged st)) (creators st))"
      unfolding creator_performance_ranking_def
      using set_head set_sort_values_desc by fastforce
    then show ?thesis by (rule merge_followers_index)
  qed
  have "\<exists>i. rc_index (hd (creator_performance_ranking ties st n)) = IntLabel i \<and>
           str_label (rc_index (hd (creator_performance_ranking ties st n))) = str_nat i"
    if "creator_performance_ranking ties st n \<noteq> []"
  proof -
    from that have "hd (creator_performance_ranking ties st n) \<in> set (creator_performance_ranking ties st n)"
      by simp
    from all [OF this] obtain i where
      "rc_index (hd (creator_performance_ranking ties st n)) = IntLabel i" by blast
    then show ?thesis by simp
  qed
  with all show ?thesis by blast
qed

lemma two_rows:
  assumes "map g xs = [u, v]"
  obtains a b where "xs = [a, b]" "g a = u" "g b = v"
  using assms by (cases xs; cases "tl xs") auto

lemma ranking_merged:
  "map (\<lambda>r. (rc_index r, rc_creator_name r, cell (rc_stats r) ''retention_rate'', rc_followers r))
     (merge_followers (creator_stats (merged (init_analyzer ranking_videos [amy, zed]))) [amy, zed])
   = [(IntLabel 0, ''Amy'', Fin (1 / 2), Fin 10), (IntLabel 1, ''Zed'', Fin (9 / 10), Fin 20)]"
proof -
  obtain a b where ab: "creator_stats (merged (init_analyzer ranking_videos [amy, zed])) = [a, b]"
    and a: "(fst a, cell (snd a) ''retention_rate'') = ((''Amy'', ''food''), Fin (1 / 2))"
    and b: "(fst b, cell (snd b) ''retention_rate'') = ((''Zed'', ''tech''), Fin (9 / 10))"
    using ranking_stats_retention by (rule two_rows)
  obtain ra where pa: "a = ((''Amy'', ''food''), ra)" using a by (cases a) auto
  obtain rb where pb: "b = ((''Zed'', ''tech''), rb)" using b by (cases b) auto
  show ?thesis
    unfolding ab using a b
    by (simp add: merge_followers_def Let_def pa pb amy_fields zed_fields enumerate_eq_zip)
qed

lemma ranking_result:
  "map (\<lambda>r. (rc_index r, rc_creator_name r))
     (creator_performance_ranking table_order (init_analyzer ranking_videos [amy, zed]) 5)
   = [(IntLabel 1, ''Zed''), (IntLabel 0, ''Amy'')]"
proof -
  have cr: "creators (init_analyzer ranking_videos [amy, zed]) = [amy, zed]"
    by (simp add: init_analyzer_def)
  obtain a b where ab: "merge_followers
       (creator_stats (merged (init_analyzer ranking_videos [amy, zed]))) [amy, zed] = [a, b]"
    and a: "(rc_index a, rc_creator_name a, cell (rc_stats a) ''retention_rate'', rc_followers a)
            = (IntLabel 0, ''Amy'', Fin (1 / 2), Fin 10)"
    and b: "(rc_index b, rc_creator_name b, cell (rc_stats b) ''retention_rate'', rc_followers b)
            = (IntLabel 1, ''Zed'', Fin (9 / 10), Fin 20)"
    using ranking_merged by (rule two_rows)
  have "sort_values_desc table_order (\<lambda>r. cell (rc_stats r) ''retention_rate'') [a, b] = [b, a]"
    using a b by (intro sort_values_desc_pair) (simp_all add: is_nan_def)
  then show ?thesis
    unfolding creator_performance_ranking_def cr ab using a b
    by (simp add: head_def)
qed

text \<open>
  With the two creators of the example, Zed ranks first and carries the index 1, his
  position before the sort; the report's \<open>Top Creator\<close> line would name \<open>1\<close>.
\<close>

theorem ranked_creators_indexed_by_position_witness:
  "map (\<lambda>r. (rc_index r, rc_creator_name r))
     (creator_performance_ranking table_order (init_analyzer ranking_videos [amy, zed]) 5)
     = [(IntLabel 1, ''Zed''), (IntLabel 0, ''Amy'')] \<and>
   (\<exists>i. rc_index (hd (creator_performance_ranking table_order (init_analyzer ranking_videos [amy, zed]) 5))
          = IntLabel i \<and>
        str_label (rc_index (hd (creator_performance_ranking
          table_order (init_analyzer ranking_videos [amy, zed]) 5))) = str_nat i) \<and>
   str_label (rc_index (hd (creator_performance_ranking
          table_order (init_analyzer ranking_videos [amy, zed]) 5))) = ''1''"
proof -
  have ne: "creator_performance_ranking table_order (init_analyzer ranking_videos [amy, zed]) 5 \<noteq> []"
    using ranking_result by auto
  obtain a b where ab: "creator_performance_ranking table_order (init_analyzer ranking_videos [amy, zed]) 5
      = [a, b]" and a: "(rc_index a, rc_creator_name a) = (IntLabel 1, ''Zed'')"
    using ranking_result by (rule two_rows)
  have one: "str_label (rc_index (hd (creator_performance_ranking
          table_order (init_analyzer ranking_videos [amy, zed]) 5))) = ''1''"
    unfolding ab using a by simp
  show ?thesis
    using ranked_creators_indexed_by_position
        [of table_order "init_analyzer ranking_videos [amy, zed]" 5] ne ranking_result one
    by blast
qed

section \<open>What the analyses write to the merged table\<close>

lemma snd_duration_analysis:
  "snd (duration_analysis pv st) =
     st\<lparr> merged := (merged st)\<lparr> duration_bin :=
        Some (map (\<lambda>r. cut_duration (duration_sec r)) (m_rows (merged st))) \<rparr> \<rparr>"
  by (simp add: duration_analysis_def Let_def assign_duration_bin_def comp_def)

lemma performance_clustering_cases:
  "(\<exists>e. performance_clustering km st k = (Inl e, st)) \<or>
   (\<exists>t ls. performance_clustering km st k =
      (Inr t, st\<lparr> merged := (merged st)\<lparr> cluster := Some ls \<rparr> \<rparr>))"
  by (auto simp: performance_clustering_def split: sum.splits)

lemma snd_generate_insights_report:
  "snd (generate_insights_report ties pv st) = st \<or>
   snd (generate_insights_report ties pv st) = snd (duration_analysis pv st)"
  by (simp add: generate_insights_report_def Let_def split: sum.split)

text \<open>
  C6, as the code has it. No analysis call changes the rows of the merged table, and the
  grouped aggregations, the correlation and the rankings are functions of the table that
  assign nothing to it. But \<^verbatim>\<open>duration_analysis\<close> writes the column \<open>duration_bin\<close>
  into the merged table, \<^verbatim>\<open>performance_clustering\<close> writes the column \<open>cluster\<close>
  when it succeeds (and leaves the table as it was when it fails), and
  \<^verbatim>\<open>generate_insights_report\<close> leaves the table as it was or as \<^verbatim>\<open>duration_analysis\<close>
  leaves it.
\<close>

theorem analysis_effects_on_merged_table:
  "snd (duration_analysis pv st) =
     st\<lparr> merged := (merged st)\<lparr> duration_bin :=
        Some (map (\<lambda>r. cut_duration (duration_sec r)) (m_rows (merged st))) \<rparr> \<rparr> \<and>
   ((\<exists>e. performance_clustering km st k = (Inl e, st)) \<or>
    (\<exists>t ls. performance_clustering km st k =
       (Inr t, st\<lparr> merged := (merged st)\<lparr> cluster := Some ls \<rparr> \<rparr>))) \<and>
   (snd (generate_insights_report ties pv st) = st \<or>
    snd (generate_insights_report ties pv st) = snd (duration_analysis pv st)) \<and>
   m_rows (merged (snd (duration_analysis pv st))) = m_rows (merged st) \<and>
   m_rows (merged (snd (performance_clustering km st k))) = m_rows (merged st) \<and>
   m_rows (merged (snd (generate_insights_report ties pv st))) = m_rows (merged st)"
proof -
  have a: "m_rows (merged (snd (duration_analysis pv st))) = m_rows (merged st)"
    by (simp add: snd_duration_analysis)
  have b: "m_rows (merged (snd (performance_clustering km st k))) = m_rows (merged st)"
    using performance_clustering_cases [of km st k] by auto
  have c: "m_rows (merged (snd (generate_insights_report ties pv st))) = m_rows (merged st)"
    using snd_generate_insights_report [of ties pv st] a by auto
  show ?thesis
    using snd_duration_analysis [of pv st] performance_clustering_cases [of km st k]
      snd_generate_insights_report [of ties pv st] a b c
    by blast
qed

text \<open>
  The claim fails for the columns: after \<^verbatim>\<open>duration_analysis\<close> the merged table of the
  example has a column it did not have, and so has the table of the two twin rows after
  \<^verbatim>\<open>performance_clustering\<close>.
\<close>

theorem analysis_adds_columns_counterexample:
  "duration_bin (merged (init_analyzer example_videos [])) = None \<and>
   duration_bin (merged (snd (duration_analysis Pandas2 (init_analyzer example_videos [])))) =
     Some [Some ''0-15s'', Some ''0-15s'', Some ''0-15s''] \<and>
   merged (snd (duration_analysis Pandas2 (init_analyzer example_videos []))) \<noteq>
     merged (init_analyzer example_videos []) \<and>
   cluster (merged (init_analyzer twin_videos [])) = None \<and>
   cluster (merged (snd (performance_clustering one_cluster (init_analyzer twin_videos []) 2))) =
     Some [0, 0]"
proof -
  have b: "duration_bin (merged (init_analyzer example_videos [])) = None"
    by (simp add: init_analyzer_def prepare_data_def)
  have d: "map (\<lambda>r. cut_duration (duration_sec r)) (m_rows (merged (init_analyzer example_videos [])))
     = map cut_duration (map duration_sec (m_rows (merged (init_analyzer example_videos []))))"
    by (simp add: comp_def)
  have a: "duration_bin (merged (snd (duration_analysis Pandas2 (init_analyzer example_videos []))))
     = Some [Some ''0-15s'', Some ''0-15s'', Some ''0-15s'']"
    unfolding snd_duration_analysis
    by (simp add: d example_durations duration_bins_def duration_labels_def)
  have ne: "merged (snd (duration_analysis Pandas2 (init_analyzer example_videos []))) \<noteq>
     merged (init_analyzer example_videos [])"
    using a b by (metis option.distinct(1))
  have c: "cluster (merged (init_analyzer twin_videos [])) = None"
    by (simp add: init_analyzer_def prepare_data_def)
  show ?thesis
    using a b ne c by (simp add: twin_clustering)
qed

section \<open>Top performers\<close>

lemma mset_ranked: "mset (ranked kvs) = mset kvs"
proof -
  have "mset (filter (\<lambda>kv. \<not> is_nan (fst kv)) kvs) + mset (filter (\<lambda>kv. is_nan (fst kv)) kvs)
      = mset kvs"
    by (metis multiset_partition mset_filter add.commute)
  then show ?thesis
    by (simp add: ranked_def mset_stable_desc del: mset_filter)
qed

lemma sorted_ranked: "sorted_wrt (\<lambda>a b. fval_key (fst b) \<le> fval_key (fst a)) (ranked kvs)"
proof -
  have "sorted_wrt (\<lambda>a b. fval_key (fst b) \<le> fval_key (fst a))
          (filter (\<lambda>kv. is_nan (fst kv)) kvs)"
    by (induction kvs) (auto simp: is_nan_iff)
  moreover have "set (stable_desc fst (filter (\<lambda>kv. \<not> is_nan (fst kv)) kvs))
      = set (filter (\<lambda>kv. \<not> is_nan (fst kv)) kvs)"
    using mset_stable_desc by (metis mset_eq_setD)
  ultimately show ?thesis
    unfolding ranked_def
    by (auto simp: sorted_wrt_append sorted_stable_desc is_nan_iff nan_key_least)
qed

lemma stable_ranked:
  "filter (\<lambda>kv. fval_key (fst kv) = k) (ranked kvs) = filter (\<lambda>kv. fval_key (fst kv) = k) kvs"
proof (cases "k = (0, 0)")
  case True
  have a: "filter (\<lambda>kv. fval_key (fst kv) = k) (filter (\<lambda>kv. \<not> is_nan (fst kv)) kvs) = []"
    using True by (induction kvs) (auto simp: is_nan_iff fval_key_nan)
  have b: "filter (\<lambda>kv. fval_key (fst kv) = k) (filter (\<lambda>kv. is_nan (fst kv)) kvs)
      = filter (\<lambda>kv. fval_key (fst kv) = k) kvs"
    using True by (induction kvs) (auto simp: is_nan_iff fval_key_nan)
  show ?thesis
    unfolding ranked_def filter_append stable_stable_desc a b by simp
next
  case False
  have a: "filter (\<lambda>kv. fval_key (fst kv) = k) (filter (\<lambda>kv. \<not> is_nan (fst kv)) kvs)
      = filter (\<lambda>kv. fval_key (fst kv) = k) kvs"
    using False by (induction kvs) (auto simp: is_nan_iff)
  have b: "filter (\<lambda>kv. fval_key (fst kv) = k) (filter (\<lambda>kv. is_nan (fst kv)) kvs) = []"
    using False by (induction kvs) (auto simp: is_nan_iff)
  show ?thesis
    unfolding ranked_def filter_append stable_stable_desc a b by simp
qed

text \<open>
  What \<^verbatim>\<open>nlargest\<close> returns is a prefix of a list that holds the rows of the table,
  largest first; that list keeps equal cells in the table's order when fewer rows are
  asked for than there are.
\<close>

lemma nlargest_prefix:
  "\<exists>S. nlargest ties n kvs = take (nat n) S \<and>
       mset S = mset kvs \<and>
       sorted_wrt (\<lambda>a b. fval_key (fst b) \<le> fval_key (fst a)) S \<and>
       (n < int (length kvs) \<longrightarrow>
          (\<forall>k. filter (\<lambda>kv. fval_key (fst kv) = k) S =
               filter (\<lambda>kv. fval_key (fst kv) = k) kvs))"
proof (cases "0 < n \<and> int (length kvs) \<le> n")
  case True
  then have "nlargest ties n kvs = take (nat n) (sort_values_desc ties fst kvs)"
    by (simp add: nlargest_def head_def)
  then show ?thesis
    using True mset_sort_values_desc [of ties fst kvs] sorted_sort_values_desc [of fst ties kvs]
    by (intro exI [of _ "sort_values_desc ties fst kvs"]) simp
next
  case False
  then have "nlargest ties n kvs = take (nat n) (ranked kvs)"
    by (auto simp: nlargest_def)
  then show ?thesis
    using mset_ranked [of kvs] sorted_ranked [of kvs] stable_ranked [of _ kvs]
    by (intro exI [of _ "ranked kvs"]) simp
qed

lemma metric_names:
  "metric_values m ''retention_rate'' = Inr (map retention_rate (m_rows m))"
  "metric_values m ''engagement_rate'' = Inr (map engagement_rate (m_rows m))"
  "metric_values m ''hook_watch_rate'' = Inr (map hook_watch_rate (m_rows m))"
  "metric_values m ''avg_watch_time_per_view'' = Inr (map avg_watch_time_per_view (m_rows m))"
  "metric_values m ''like_to_view_ratio'' = Inr (map like_to_view_ratio (m_rows m))"
  "metric_values m ''share_to_view_ratio'' = Inr (map share_to_view_ratio (m_rows m))"
  "metric_values m ''duration_sec'' = Inr (map duration_sec (m_rows m))"
  "metric_values m ''followers'' = Inr (map followers (m_rows m))"
  "metric_values m ''views'' = Inr (map (\<lambda>r. to_float (views r)) (m_rows m))"
  "metric_values m ''likes'' = Inr (map (\<lambda>r. to_float (likes r)) (m_rows m))"
  "metric_values m ''comments'' = Inr (map (\<lambda>r. to_float (comments r)) (m_rows m))"
  "metric_values m ''shares'' = Inr (map (\<lambda>r. to_float (shares r)) (m_rows m))"
  "metric_values m ''watch_time'' = Inr (map (\<lambda>r. to_float (watch_time r)) (m_rows m))"
  "metric_values m ''full_views'' = Inr (map (\<lambda>r. to_float (full_views r)) (m_rows m))"
  by (simp_all add: metric_values_def numeric_columns_def numeric_cols_def comp_def)

lemma text_metric_names:
  "metric_values m ''video_id'' = Inl (TypeError ''video_id'')"
  "metric_values m ''format_type'' = Inl (TypeError ''format_type'')"
  "metric_values m ''creator_name'' = Inl (TypeError ''creator_name'')"
  "metric_values m ''niche'' = Inl (TypeError ''niche'')"
  by (simp_all add: metric_values_def numeric_columns_def numeric_cols_def text_columns_def)

text \<open>
  C7, as the code has it. The metric names the column of that name (a text column is a
  type error), and each returned row is the projection of a table row to the eleven
  columns of lines 143 to 145. For a metric that names a numeric column and any \<open>N\<close>,
  the rows returned are the first \<open>N\<close> rows of \<open>S\<close>, where \<open>S\<close> holds exactly the rows of
  the table, sorted by the metric from the largest down (a missing value last); so they
  are \<open>N\<close> rows with the largest values, or all rows when \<open>N\<close> is at least the number of
  rows, without error. When \<open>N\<close> is smaller than the number of rows, rows with equal
  values are in the table's order in \<open>S\<close>. When \<open>N\<close> is at least the number of rows the
  order of rows with equal values is the one the library's default sort gives them,
  which need not be the table's.
\<close>

theorem top_performers_ranking:
  "metric_values m ''retention_rate'' = Inr (map retention_rate (m_rows m)) \<and>
   metric_values m ''engagement_rate'' = Inr (map engagement_rate (m_rows m)) \<and>
   metric_values m ''hook_watch_rate'' = Inr (map hook_watch_rate (m_rows m)) \<and>
   metric_values m ''avg_watch_time_per_view'' = Inr (map avg_watch_time_per_view (m_rows m)) \<and>
   metric_values m ''like_to_view_ratio'' = Inr (map like_to_view_ratio (m_rows m)) \<and>
   metric_values m ''share_to_view_ratio'' = Inr (map share_to_view_ratio (m_rows m)) \<and>
   metric_values m ''duration_sec'' = Inr (map duration_sec (m_rows m)) \<and>
   metric_values m ''followers'' = Inr (map followers (m_rows m)) \<and>
   metric_values m ''views'' = Inr (map (\<lambda>r. to_float (views r)) (m_rows m)) \<and>
   metric_values m ''likes'' = Inr (map (\<lambda>r. to_float (likes r)) (m_rows m)) \<and>
   metric_values m ''comments'' = Inr (map (\<lambda>r. to_float (comments r)) (m_rows m)) \<and>
   metric_values m ''shares'' = Inr (map (\<lambda>r. to_float (shares r)) (m_rows m)) \<and>
   metric_values m ''watch_time'' = Inr (map (\<lambda>r. to_float (watch_time r)) (m_rows m)) \<and>
   metric_values m ''full_views'' = Inr (map (\<lambda>r. to_float (full_views r)) (m_rows m)) \<and>
   top_performers_analysis ties m ''niche'' n = Inl (TypeError ''niche'') \<and>
   t_video_id (project_top r) = video_id r \<and>
   t_creator_name (project_top r) = creator_name r \<and>
   t_format_type (project_top r) = format_type r \<and>
   t_duration_sec (project_top r) = duration_sec r \<and>
   t_views (project_top r) = views r \<and>
   t_likes (project_top r) = likes r \<and>
   t_shares (project_top r) = shares r \<and>
   t_retention_rate (project_top r) = retention_rate r \<and>
   t_engagement_rate (project_top r) = engagement_rate r \<and>
   t_hook_watch_rate (project_top r) = hook_watch_rate r \<and>
   t_niche (project_top r) = niche r \<and>
   (metric_values m metric = Inr vs \<longrightarrow>
      (\<exists>R S. top_performers_analysis ties m metric n = Inr (map project_top (map snd R)) \<and>
             R = take (nat n) S \<and>
             length R = min (nat n) (length (zip vs (m_rows m))) \<and>
             mset S = mset (zip vs (m_rows m)) \<and>
             sorted_wrt (\<lambda>a b. fval_key (fst b) \<le> fval_key (fst a)) S \<and>
             (n < int (length (zip vs (m_rows m))) \<longrightarrow>
                (\<forall>k. filter (\<lambda>kv. fval_key (fst kv) = k) S =
                     filter (\<lambda>kv. fval_key (fst kv) = k) (zip vs (m_rows m)))) \<and>
             (int (length (zip vs (m_rows m))) \<le> n \<longrightarrow> R = S)))"
proof -
  have main: "\<exists>R S. top_performers_analysis ties m metric n = Inr (map project_top (map snd R)) \<and>
             R = take (nat n) S \<and>
             length R = min (nat n) (length (zip vs (m_rows m))) \<and>
             mset S = mset (zip vs (m_rows m)) \<and>
             sorted_wrt (\<lambda>a b. fval_key (fst b) \<le> fval_key (fst a)) S \<and>
             (n < int (length (zip vs (m_rows m))) \<longrightarrow>
                (\<forall>k. filter (\<lambda>kv. fval_key (fst kv) = k) S =
                     filter (\<lambda>kv. fval_key (fst kv) = k) (zip vs (m_rows m)))) \<and>
             (int (length (zip vs (m_rows m))) \<le> n \<longrightarrow> R = S)"
    if mv: "metric_values m metric = Inr vs"
  proof -
    let ?kvs = "zip vs (m_rows m)"
    from nlargest_prefix [of ties n ?kvs] obtain S where
      S: "nlargest ties n ?kvs = take (nat n) S" "mset S = mset ?kvs"
        "sorted_wrt (\<lambda>a b. fval_key (fst b) \<le> fval_key (fst a)) S"
        "n < int (length ?kvs) \<longrightarrow>
          (\<forall>k. filter (\<lambda>kv. fval_key (fst kv) = k) S = filter (\<lambda>kv. fval_key (fst kv) = k) ?kvs)"
      by blast
    have len: "length S = length ?kvs" using S(2) by (rule mset_eq_length)
    have res: "top_performers_analysis ties m metric n =
        Inr (map project_top (map snd (take (nat n) S)))"
      using mv S(1) by (simp add: top_performers_analysis_def)
    have lenR: "length (take (nat n) S) = min (nat n) (length ?kvs)"
      using len by simp
    have allR: "int (length ?kvs) \<le> n \<longrightarrow> take (nat n) S = S"
      using len by simp
    show ?thesis
      using res lenR allR S(2-) by (intro exI [of _ "take (nat n) S"] exI [of _ S]) simp
  qed
  have proj: "t_video_id (project_top r) = video_id r"
    "t_creator_name (project_top r) = creator_name r"
    "t_format_type (project_top r) = format_type r"
    "t_duration_sec (project_top r) = duration_sec r"
    "t_views (project_top r) = views r"
    "t_likes (project_top r) = likes r"
    "t_shares (project_top r) = shares r"
    "t_retention_rate (project_top r) = retention_rate r"
    "t_engagement_rate (project_top r) = engagement_rate r"
    "t_hook_watch_rate (project_top r) = hook_watch_rate r"
    "t_niche (project_top r) = niche r"
    by (simp_all add: project_top_def)
  have tcol: "top_performers_analysis ties m ''niche'' n = Inl (TypeError ''niche'')"
    by (simp add: top_performers_analysis_def text_metric_names)
  show ?thesis
    using main proj tcol metric_names [of m] by blast
qed

lemma example_merged_rows:
  "m_rows (merged (init_analyzer example_videos [])) =
     [derive (join_row (example_video ''a'' 100 10) None),
      derive (join_row (example_video ''b'' 0 5) None),
      derive (join_row (example_video ''c'' 50 5) None)]"
  by (simp add: init_analyzer_def example_rows)

lemma example_engagement_cells:
  "engagement_rate (derive (join_row (example_video ''a'' 100 10) None)) = Fin 10"
  "engagement_rate (derive (join_row (example_video ''b'' 0 5) None)) = PInf"
  "engagement_rate (derive (join_row (example_video ''c'' 50 5) None)) = Fin 10"
  by (simp_all add: derive_def join_row_def example_video_def video.extend_def arow.fields_def
      cell_arith)

lemma example_engagement:
  "metric_values (merged (init_analyzer example_videos [])) ''engagement_rate'' =
     Inr [Fin 10, PInf, Fin 10]"
  by (simp add: metric_names example_merged_rows example_engagement_cells)

lemma example_fast_path:
  "nlargest ties 2 [(Fin 10, a), (PInf, b), (Fin 10, c)] = [(PInf, b), (Fin 10, a)]"
  by (simp add: nlargest_def ranked_def stable_desc_def is_nan_def)

lemma example_reversed_ties:
  "nlargest reversed_order 5 [(Fin 10, a), (PInf, b), (Fin 10, c)] =
     [(PInf, b), (Fin 10, c), (Fin 10, a)]"
  by (simp add: nlargest_def sort_values_desc_def argsort_desc_def reversed_order_def head_def
      is_nan_def upt_rec [of 0] upt_rec [of 1] upt_rec [of 2])

lemma example_table_ties:
  "nlargest table_order 5 [(Fin 10, a), (PInf, b), (Fin 10, c)] =
     [(PInf, b), (Fin 10, a), (Fin 10, c)]"
  by (simp add: nlargest_def sort_values_desc_def argsort_desc_def table_order_def head_def
      is_nan_def upt_rec [of 0] upt_rec [of 1] upt_rec [of 2])

text \<open>
  The three example videos by engagement rate with \<open>N = 2\<close>: the video with the infinite
  rate first, then the first of the two with rate 10 in the table's order.
\<close>

theorem top_performers_ranking_witness:
  "top_performers_analysis table_order (merged (init_analyzer example_videos []))
       ''engagement_rate'' 2 =
     Inr (map project_top
       [derive (join_row (example_video ''b'' 0 5) None),
        derive (join_row (example_video ''a'' 100 10) None)]) \<and>
   (\<exists>R S. top_performers_analysis table_order (merged (init_analyzer example_videos []))
             ''engagement_rate'' 2 = Inr (map project_top (map snd R)) \<and>
          R = take 2 S \<and> length R = 2 \<and>
          mset S = mset (zip [Fin 10, PInf, Fin 10]
                     (m_rows (merged (init_analyzer example_videos [])))) \<and>
          (\<forall>k. filter (\<lambda>kv. fval_key (fst kv) = k) S =
               filter (\<lambda>kv. fval_key (fst kv) = k)
                 (zip [Fin 10, PInf, Fin 10]
                    (m_rows (merged (init_analyzer example_videos []))))))"
proof -
  let ?m = "merged (init_analyzer example_videos [])"
  let ?kvs = "zip [Fin 10, PInf, Fin 10] (m_rows ?m)"
  have len: "length ?kvs = 3"
    by (simp add: example_merged_rows)
  have "metric_values ?m ''engagement_rate'' = Inr [Fin 10, PInf, Fin 10] \<longrightarrow>
      (\<exists>R S. top_performers_analysis table_order ?m ''engagement_rate'' 2 =
               Inr (map project_top (map snd R)) \<and>
             R = take (nat 2) S \<and>
             length R = min (nat 2) (length ?kvs) \<and>
             mset S = mset ?kvs \<and>
             sorted_wrt (\<lambda>a b. fval_key (fst b) \<le> fval_key (fst a)) S \<and>
             (2 < int (length ?kvs) \<longrightarrow>
                (\<forall>k. filter (\<lambda>kv. fval_key (fst kv) = k) S =
                     filter (\<lambda>kv. fval_key (fst kv) = k) ?kvs)) \<and>
             (int (length ?kvs) \<le> 2 \<longrightarrow> R = S))"
    using top_performers_ranking
      [of ?m table_order 2 undefined "''engagement_rate''" "[Fin 10, PInf, Fin 10]"]
    by blast
  then obtain R S where
    "top_performers_analysis table_order ?m ''engagement_rate'' 2 =
       Inr (map project_top (map snd R))"
    "R = take (nat 2) S" "length R = min (nat 2) (length ?kvs)" "mset S = mset ?kvs"
    "2 < int (length ?kvs) \<longrightarrow>
       (\<forall>k. filter (\<lambda>kv. fval_key (fst kv) = k) S = filter (\<lambda>kv. fval_key (fst kv) = k) ?kvs)"
    using example_engagement by blast
  then have ex: "\<exists>R S. top_performers_analysis table_order ?m ''engagement_rate'' 2 =
        Inr (map project_top (map snd R)) \<and>
      R = take 2 S \<and> length R = 2 \<and> mset S = mset ?kvs \<and>
      (\<forall>k. filter (\<lambda>kv. fval_key (fst kv) = k) S = filter (\<lambda>kv. fval_key (fst kv) = k) ?kvs)"
    unfolding len by (intro exI [of _ R] exI [of _ S]) simp
  have "top_performers_analysis table_order ?m ''engagement_rate'' 2 =
     Inr (map project_top
       [derive (join_row (example_video ''b'' 0 5) None),
        derive (join_row (example_video ''a'' 100 10) None)])"
    by (simp add: top_performers_analysis_def example_engagement example_merged_rows
        example_fast_path)
  with ex show ?thesis by blast
qed

text \<open>
  The claim as the specification states it fails when \<open>N\<close> is at least the number of
  rows: the library then sorts the whole column with its default sort, which keeps no order
  among equal values. The example videos \<^verbatim>\<open>a\<close>, \<^verbatim>\<open>b\<close>, \<^verbatim>\<open>c\<close> have engagement rates 10,
  infinity and 10; with \<open>N = 5\<close> and a sort that returns equal values in reverse, \<^verbatim>\<open>c\<close>
  comes before \<^verbatim>\<open>a\<close>, although \<^verbatim>\<open>a\<close> is the earlier row of the table.
\<close>

theorem tied_rows_reordered_counterexample:
  "map video_id (m_rows (merged (init_analyzer example_videos []))) = [''a'', ''b'', ''c''] \<and>
   map engagement_rate (m_rows (merged (init_analyzer example_videos []))) =
     [Fin 10, PInf, Fin 10] \<and>
   top_performers_analysis reversed_order (merged (init_analyzer example_videos []))
       ''engagement_rate'' 5 =
     Inr (map project_top
       [derive (join_row (example_video ''b'' 0 5) None),
        derive (join_row (example_video ''c'' 50 5) None),
        derive (join_row (example_video ''a'' 100 10) None)]) \<and>
   map t_video_id
     [project_top (derive (join_row (example_video ''b'' 0 5) None)),
      project_top (derive (join_row (example_video ''c'' 50 5) None)),
      project_top (derive (join_row (example_video ''a'' 100 10) None))] =
     [''b'', ''c'', ''a'']"
proof -
  have ids: "video_id (derive (join_row (example_video ''a'' 100 10) None)) = ''a''"
    "video_id (derive (join_row (example_video ''b'' 0 5) None)) = ''b''"
    "video_id (derive (join_row (example_video ''c'' 50 5) None)) = ''c''"
    by (simp_all add: derive_def join_row_def example_video_def video.extend_def
        arow.fields_def)
  have top: "top_performers_analysis reversed_order (merged (init_analyzer example_videos []))
       ''engagement_rate'' 5 =
     Inr (map project_top
       [derive (join_row (example_video ''b'' 0 5) None),
        derive (join_row (example_video ''c'' 50 5) None),
        derive (join_row (example_video ''a'' 100 10) None)])"
    by (simp add: top_performers_analysis_def example_engagement example_merged_rows
        example_reversed_ties)
  show ?thesis
    using top by (simp add: example_merged_rows example_engagement_cells ids project_top_def)
qed

section \<open>The correlation matrix\<close>

lemma welford_run_Nil: "welford_run [] = welford_init"
  by (simp add: welford_run_def)

lemma welford_run_snoc: "welford_run (ps @ [p]) = welford_step (welford_run ps) p"
  by (simp add: welford_run_def)

lemma welford_run_single: "welford_run [p] = welford_step welford_init p"
  by (simp add: welford_run_def)

lemma nobs_welford_run: "nobs (welford_run ps) = length ps"
  by (induction ps rule: rev_induct)
     (simp_all add: welford_run_Nil welford_run_snoc welford_init_def welford_step_def Let_def)

lemma welford_constant_x:
  assumes "\<forall>p\<in>set ps. fst p = c"
  shows "ssqdm_x (welford_run ps) = 0 \<and> (ps \<noteq> [] \<longrightarrow> meanx (welford_run ps) = c)"
  using assms
proof (induction ps rule: rev_induct)
  case Nil
  then show ?case by (simp add: welford_run_Nil welford_init_def)
next
  case (snoc p ps)
  then have ih: "ssqdm_x (welford_run ps) = 0" "ps \<noteq> [] \<longrightarrow> meanx (welford_run ps) = c"
    and p: "fst p = c" by simp_all
  show ?case
  proof (cases "ps = []")
    case True
    then show ?thesis
      using p by (simp add: welford_run_single welford_init_def welford_step_def Let_def)
  next
    case False
    then show ?thesis
      using p ih by (simp add: welford_run_snoc welford_step_def Let_def)
  qed
qed

lemma welford_constant_y:
  assumes "\<forall>p\<in>set ps. snd p = c"
  shows "ssqdm_y (welford_run ps) = 0 \<and> (ps \<noteq> [] \<longrightarrow> meany (welford_run ps) = c)"
  using assms
proof (induction ps rule: rev_induct)
  case Nil
  then show ?case by (simp add: welford_run_Nil welford_init_def)
next
  case (snoc p ps)
  then have ih: "ssqdm_y (welford_run ps) = 0" "ps \<noteq> [] \<longrightarrow> meany (welford_run ps) = c"
    and p: "snd p = c" by simp_all
  show ?case
  proof (cases "ps = []")
    case True
    then show ?thesis
      using p by (simp add: welford_run_single welford_init_def welford_step_def Let_def)
  next
    case False
    then show ?thesis
      using p ih by (simp add: welford_run_snoc welford_step_def Let_def)
  qed
qed

lemma welford_diagonal:
  assumes "\<forall>p\<in>set ps. fst p = snd p"
  shows "meany (welford_run ps) = meanx (welford_run ps) \<and>
         ssqdm_y (welford_run ps) = ssqdm_x (welford_run ps) \<and>
         covxy (welford_run ps) = ssqdm_x (welford_run ps)"
  using assms
  by (induction ps rule: rev_induct)
     (simp_all add: welford_run_Nil welford_run_snoc welford_init_def welford_step_def Let_def)

lemma welford_increment:
  "ssqdm_x (welford_step w p) =
     ssqdm_x w + (fst p - meanx w) ^ 2 * (1 - 1 / real (nobs w + 1))"
proof -
  have "(v - (m + 1 / N * (v - m))) * (v - m) = (v - m) ^ 2 * (1 - 1 / N)"
    for v m N :: real
    by (simp add: power2_eq_square algebra_simps add_divide_distrib diff_divide_distrib)
  then show ?thesis
    by (simp add: welford_step_def Let_def)
qed

lemma welford_increment_nonneg: "0 \<le> (d::real) ^ 2 * (1 - 1 / real (n + 1))"
  by (simp add: field_simps)

lemma ssqdm_x_nonneg: "0 \<le> ssqdm_x (welford_run ps)"
proof (induction ps rule: rev_induct)
  case Nil
  then show ?case by (simp add: welford_run_Nil welford_init_def)
next
  case (snoc p ps)
  then show ?case
    unfolding welford_run_snoc welford_increment
    using welford_increment_nonneg [of "fst p - meanx (welford_run ps)" "nobs (welford_run ps)"]
    by linarith
qed

lemma ssqdm_x_zero:
  assumes "ssqdm_x (welford_run ps) = 0"
  shows "\<forall>p\<in>set ps. fst p = meanx (welford_run ps)"
  using assms
proof (induction ps rule: rev_induct)
  case Nil
  then show ?case by simp
next
  case (snoc p ps)
  let ?w = "welford_run ps"
  let ?d = "fst p - meanx ?w"
  have sum: "ssqdm_x ?w + ?d ^ 2 * (1 - 1 / real (nobs ?w + 1)) = 0"
    using snoc.prems unfolding welford_run_snoc welford_increment .
  have nn: "0 \<le> ?d ^ 2 * (1 - 1 / real (nobs ?w + 1))"
    by (rule welford_increment_nonneg)
  from sum nn ssqdm_x_nonneg [of ps]
  have z: "ssqdm_x ?w = 0" and inc: "?d ^ 2 * (1 - 1 / real (nobs ?w + 1)) = 0"
    by linarith+
  have mean: "meanx (welford_run (ps @ [p])) = meanx ?w + 1 / real (nobs ?w + 1) * ?d"
    by (simp add: welford_run_snoc welford_step_def Let_def)
  show ?case
  proof (cases "ps = []")
    case True
    then show ?thesis
      by (simp add: welford_run_single welford_init_def welford_step_def Let_def)
  next
    case False
    then have "0 < length ps" by simp
    then have "1 - 1 / real (nobs ?w + 1) \<noteq> 0"
      by (simp add: nobs_welford_run field_simps)
    with inc have d0: "?d = 0" by simp
    then have m: "meanx (welford_run (ps @ [p])) = meanx ?w" using mean by simp
    from snoc.IH [OF z] d0 show ?thesis by (simp add: m)
  qed
qed


lemma nancorr_pair_run:
  "nancorr_pair xs ys =
     (if nobs (welford_run (complete_pairs xs ys)) < 1 then NaN
      else if sqrt (ssqdm_x (welford_run (complete_pairs xs ys)) *
                    ssqdm_y (welford_run (complete_pairs xs ys))) \<noteq> 0
           then Fin (covxy (welford_run (complete_pairs xs ys)) /
                     sqrt (ssqdm_x (welford_run (complete_pairs xs ys)) *
                           ssqdm_y (welford_run (complete_pairs xs ys))))
           else NaN)"
  by (simp add: nancorr_pair_def Let_def)

lemma finite_vals_Cons:
  "finite_vals (x # xs) = (case finite_value x of None \<Rightarrow> finite_vals xs
                            | Some a \<Rightarrow> a # finite_vals xs)"
  by (simp add: finite_vals_def List.map_filter_simps split: option.split)

lemma finite_vals_Nil: "finite_vals [] = []"
  by (simp add: finite_vals_def List.map_filter_simps)

lemma complete_pairs_mem:
  "(a, b) \<in> set (complete_pairs xs ys) \<Longrightarrow>
     a \<in> set (finite_vals xs) \<and> b \<in> set (finite_vals ys)"
proof (induction xs ys rule: complete_pairs.induct)
  case (1 x xs y ys)
  then show ?case
    by (cases "finite_value x"; cases "finite_value y") (auto simp: finite_vals_Cons)
qed (simp_all add: finite_vals_Nil)

lemma complete_pairs_diag: "complete_pairs xs xs = map (\<lambda>a. (a, a)) (finite_vals xs)"
proof (induction xs)
  case Nil
  then show ?case by (simp add: finite_vals_Nil)
next
  case (Cons x xs)
  then show ?case by (cases "finite_value x") (simp_all add: finite_vals_Cons)
qed

lemma set_finite_vals: "set (finite_vals xs) = {a. \<exists>x\<in>set xs. finite_value x = Some a}"
proof (induction xs)
  case Nil
  then show ?case by (simp add: finite_vals_Nil)
next
  case (Cons x xs)
  then show ?case by (cases "finite_value x") (auto simp: finite_vals_Cons)
qed

lemma nancorr_pair_constant_x:
  assumes "\<forall>a b. a \<in> set (finite_vals xs) \<longrightarrow> b \<in> set (finite_vals xs) \<longrightarrow> a = b"
  shows "nancorr_pair xs ys = NaN"
proof (cases "complete_pairs xs ys")
  case Nil
  then show ?thesis by (simp add: nancorr_pair_run nobs_welford_run)
next
  case (Cons p ps)
  have "\<forall>q\<in>set (complete_pairs xs ys). fst q = fst p"
  proof
    fix q assume q: "q \<in> set (complete_pairs xs ys)"
    have "fst q \<in> set (finite_vals xs)"
      using complete_pairs_mem [of "fst q" "snd q" xs ys] q by simp
    moreover have "fst p \<in> set (finite_vals xs)"
      using complete_pairs_mem [of "fst p" "snd p" xs ys] Cons by simp
    ultimately show "fst q = fst p" using assms by blast
  qed
  then have "ssqdm_x (welford_run (complete_pairs xs ys)) = 0"
    using welford_constant_x by blast
  then show ?thesis by (simp add: nancorr_pair_run)
qed

lemma nancorr_pair_constant_y:
  assumes "\<forall>a b. a \<in> set (finite_vals ys) \<longrightarrow> b \<in> set (finite_vals ys) \<longrightarrow> a = b"
  shows "nancorr_pair xs ys = NaN"
proof (cases "complete_pairs xs ys")
  case Nil
  then show ?thesis by (simp add: nancorr_pair_run nobs_welford_run)
next
  case (Cons p ps)
  have "\<forall>q\<in>set (complete_pairs xs ys). snd q = snd p"
  proof
    fix q assume q: "q \<in> set (complete_pairs xs ys)"
    have "snd q \<in> set (finite_vals ys)"
      using complete_pairs_mem [of "fst q" "snd q" xs ys] q by simp
    moreover have "snd p \<in> set (finite_vals ys)"
      using complete_pairs_mem [of "fst p" "snd p" xs ys] Cons by simp
    ultimately show "snd q = snd p" using assms by blast
  qed
  then have "ssqdm_y (welford_run (complete_pairs xs ys)) = 0"
    using welford_constant_y by blast
  then show ?thesis by (simp add: nancorr_pair_run)
qed

lemma nancorr_pair_diagonal:
  assumes "a \<in> set (finite_vals xs)" "b \<in> set (finite_vals xs)" "a \<noteq> b"
  shows "nancorr_pair xs xs = Fin 1"
proof -
  let ?ps = "complete_pairs xs xs"
  let ?w = "welford_run ?ps"
  have mem: "(a, a) \<in> set ?ps" "(b, b) \<in> set ?ps"
    using assms(1,2) by (auto simp: complete_pairs_diag)
  have diag: "\<forall>p\<in>set ?ps. fst p = snd p"
    by (auto simp: complete_pairs_diag)
  have eq: "ssqdm_y ?w = ssqdm_x ?w" "covxy ?w = ssqdm_x ?w"
    using welford_diagonal [OF diag] by simp_all
  have nz: "ssqdm_x ?w \<noteq> 0"
  proof
    assume "ssqdm_x ?w = 0"
    from ssqdm_x_zero [OF this] mem have "a = meanx ?w" "b = meanx ?w" by force+
    with assms(3) show False by simp
  qed
  have pos: "0 < ssqdm_x ?w" using nz ssqdm_x_nonneg [of ?ps] by linarith
  have n: "\<not> nobs ?w < 1" using mem by (cases ?ps) (auto simp: nobs_welford_run)
  have sq: "sqrt (ssqdm_x ?w * ssqdm_x ?w) = ssqdm_x ?w"
    using pos by (simp add: real_sqrt_mult)
  show ?thesis
    unfolding nancorr_pair_run eq sq using n nz by simp
qed

lemma nancorr_nth:
  assumes "i < length cols" "j < length cols"
  shows "nancorr cols ! i ! j = nancorr_pair (cols ! max i j) (cols ! min i j)"
  using assms by (simp add: nancorr_def)

lemma length_numeric_cols: "length numeric_cols = 12"
  by (simp add: numeric_cols_def)

lemma correlation_entry:
  assumes "i < length numeric_cols" "j < length numeric_cols"
  shows "correlation_analysis m ! i ! j =
           nancorr_pair (metric_column m (max i j)) (metric_column m (min i j))"
proof -
  have "max i j < length numeric_cols" "min i j < length numeric_cols"
    using assms by simp_all
  then show ?thesis
    unfolding correlation_analysis_def metric_column_def
    using assms by (simp add: nancorr_nth)
qed

text \<open>
  C8. For any two of the twelve metrics, the entry of the correlation matrix at \<open>(i, j)\<close>
  is the entry at \<open>(j, i)\<close>. If the cells of metric \<open>i\<close> that are numbers are not all the
  same (its variance is not zero), the diagonal entry at \<open>(i, i)\<close> is 1. If they are all
  the same (or there is none), every entry in the row and in the column of metric \<open>i\<close> is
  NaN, the frame's undefined value, and not 0.
\<close>

theorem correlation_matrix_properties:
  assumes "i < length numeric_cols" and "j < length numeric_cols"
  shows "correlation_analysis m ! i ! j = correlation_analysis m ! j ! i \<and>
         ((\<exists>a b. a \<in> set (finite_vals (metric_column m i)) \<and>
                 b \<in> set (finite_vals (metric_column m i)) \<and> a \<noteq> b)
            \<longrightarrow> correlation_analysis m ! i ! i = Fin 1) \<and>
         ((\<forall>a b. a \<in> set (finite_vals (metric_column m i)) \<longrightarrow>
                 b \<in> set (finite_vals (metric_column m i)) \<longrightarrow> a = b)
            \<longrightarrow> correlation_analysis m ! i ! j = NaN \<and> correlation_analysis m ! j ! i = NaN)"
proof -
  have sym: "correlation_analysis m ! i ! j = correlation_analysis m ! j ! i"
    using assms by (simp add: correlation_entry max.commute min.commute)
  have dia: "correlation_analysis m ! i ! i = Fin 1"
    if "\<exists>a b. a \<in> set (finite_vals (metric_column m i)) \<and>
               b \<in> set (finite_vals (metric_column m i)) \<and> a \<noteq> b"
    using that assms(1) by (auto simp: correlation_entry intro: nancorr_pair_diagonal)
  have und: "correlation_analysis m ! i ! j = NaN"
    if c: "\<forall>a b. a \<in> set (finite_vals (metric_column m i)) \<longrightarrow>
                  b \<in> set (finite_vals (metric_column m i)) \<longrightarrow> a = b"
  proof (cases "j \<le> i")
    case True
    then have "max i j = i" by simp
    then show ?thesis
      using assms c by (simp add: correlation_entry nancorr_pair_constant_x)
  next
    case False
    then have "min i j = i" by simp
    then show ?thesis
      using assms c by (simp add: correlation_entry nancorr_pair_constant_y)
  qed
  show ?thesis
    using sym dia und by metis
qed


lemma ranking_columns:
  "metric_column (merged (init_analyzer ranking_videos [amy, zed])) 6 = [Fin (1 / 2), Fin (9 / 10)]"
  "metric_column (merged (init_analyzer ranking_videos [amy, zed])) 0 = [Fin 100, Fin 100]"
  by (simp_all add: metric_column_def numeric_cols_def ranking_rows derive_def join_row_def
      video.extend_def arow.fields_def ranked_video_def example_video_def)

text \<open>
  The two videos of the ranking example: the retention rates differ (metric 6), the views
  are both 100 (metric 0).
\<close>

theorem correlation_matrix_properties_witness:
  "correlation_analysis (merged (init_analyzer ranking_videos [amy, zed])) ! 6 ! 6 = Fin 1 \<and>
   correlation_analysis (merged (init_analyzer ranking_videos [amy, zed])) ! 0 ! 6 = NaN \<and>
   correlation_analysis (merged (init_analyzer ranking_videos [amy, zed])) ! 6 ! 0 = NaN \<and>
   correlation_analysis (merged (init_analyzer ranking_videos [amy, zed])) ! 0 ! 0 = NaN \<and>
   correlation_analysis (merged (init_analyzer ranking_videos [amy, zed])) ! 6 ! 8 =
     correlation_analysis (merged (init_analyzer ranking_videos [amy, zed])) ! 8 ! 6"
proof -
  let ?m = "merged (init_analyzer ranking_videos [amy, zed])"
  have i6: "(6::nat) < length numeric_cols" and i0: "(0::nat) < length numeric_cols"
    and i8: "(8::nat) < length numeric_cols"
    by (simp_all add: length_numeric_cols)
  have var: "\<exists>a b. a \<in> set (finite_vals (metric_column ?m 6)) \<and>
                  b \<in> set (finite_vals (metric_column ?m 6)) \<and> a \<noteq> b"
    unfolding ranking_columns
    by (rule exI [of _ "1 / 2"], rule exI [of _ "9 / 10"])
      (simp add: finite_vals_Cons finite_vals_Nil)
  have const: "\<forall>a b. a \<in> set (finite_vals (metric_column ?m 0)) \<longrightarrow>
                    b \<in> set (finite_vals (metric_column ?m 0)) \<longrightarrow> a = b"
    unfolding ranking_columns by (simp add: finite_vals_Cons finite_vals_Nil)
  show ?thesis
    using correlation_matrix_properties [OF i6 i6, of ?m]
      correlation_matrix_properties [OF i0 i6, of ?m]
      correlation_matrix_properties [OF i0 i0, of ?m]
      correlation_matrix_properties [OF i6 i8, of ?m] var const
    by blast
qed

section \<open>The insights report on an empty summary\<close>

lemma orphan_rows:
  "m_rows (merged (init_analyzer example_videos [zed])) =
     [derive (join_row (example_video ''a'' 100 10) None),
      derive (join_row (example_video ''b'' 0 5) None),
      derive (join_row (example_video ''c'' 50 5) None)]"
  by (simp add: init_analyzer_def prepare_data_def merge_left_def derive_retention_def
      example_videos_def example_video_def zed_fields)

lemma orphan_keys:
  "map format_type (m_rows (merged (init_analyzer example_videos [zed]))) =
     [Some ''A'', Some ''A'', Some ''A'']"
  "map niche (m_rows (merged (init_analyzer example_videos [zed]))) = [None, None, None]"
  "map retention_rate (m_rows (merged (init_analyzer example_videos [zed]))) =
     [Fin 0, Fin 0, Fin 0]"
  by (simp_all add: orphan_rows derive_def join_row_def example_video_def video.extend_def
      arow.fields_def)

lemma orphan_format_keys:
  "group_keys format_type (m_rows (merged (init_analyzer example_videos [zed]))) = [''A'']"
  unfolding group_keys_def map_filter_of_map [of format_type] orphan_keys
  by (simp add: List.map_filter_simps)

lemma orphan_niche_keys:
  "group_keys niche (m_rows (merged (init_analyzer example_videos [zed]))) = []"
  unfolding group_keys_def map_filter_of_map [of niche] orphan_keys
  by (simp add: List.map_filter_simps)

lemma filter_all: "\<forall>x\<in>set xs. P x \<Longrightarrow> filter P xs = xs"
  by (induction xs) auto

lemma orphan_format_series:
  "series (''retention_rate'', ''mean'')
     (format_performance_analysis (merged (init_analyzer example_videos [zed]))) =
   [(''A'', Fin 0)]"
proof -
  let ?rs = "m_rows (merged (init_analyzer example_videos [zed]))"
  have "format_type ` set ?rs = {Some ''A''}"
    using orphan_keys(1) by (metis (no_types) list.set_map list.simps(15) insert_absorb2
        empty_set)
  then have "\<forall>r\<in>set ?rs. format_type r = Some ''A''"
    by blast
  then have g: "filter (\<lambda>r. format_type r = Some ''A'') ?rs = ?rs"
    by (rule filter_all)
  have c: "cell (agg format_spec 2 ?rs) (''retention_rate'', ''mean'') =
      round_dec 2 (agg_mean (map retention_rate ?rs))"
    by (simp add: cell_def agg_def format_spec_def)
  show ?thesis
    unfolding format_performance_analysis_def groupby_def orphan_format_keys
    by (simp add: series_def g c orphan_keys agg_mean_def dropna_def fsum_def rint_def
        Let_def cell_arith)
qed

lemma orphan_niche_series:
  "series ''engagement_rate_mean'' (niche_analysis (merged (init_analyzer example_videos [zed])))
     = []"
  by (simp add: niche_analysis_def groupby_def orphan_niche_keys series_def)

text \<open>
  C4. The report has a fallback sentence where it reads the creator ranking, the
  duration summary and the correlations, and none where it reads the format summary
  (line 212) and the niche summary (line 225). With the three example videos and a
  creators table in which no creator has their \<open>creator_id\<close>, every niche is missing, the
  niche summary has no row, and \<^verbatim>\<open>idxmax\<close> raises: the call ends in an exception,
  under either version of the frame library. On the same input the creator ranking is
  empty too, and there the fallback sentence is used.
\<close>

theorem insights_report_raises_without_niche:
  "generate_insights_report ties Pandas2 (init_analyzer example_videos [zed]) =
     (Inl EmptyArgmax, init_analyzer example_videos [zed]) \<and>
   generate_insights_report ties Pandas3 (init_analyzer example_videos [zed]) =
     (Inl EmptyArgmax, init_analyzer example_videos [zed]) \<and>
   creator_insight (creator_performance_ranking ties (init_analyzer example_videos [zed]) 5) =
     '' **Top Creator**: Analysis available in detailed report''"
proof -
  have cs: "creator_stats (merged (init_analyzer example_videos [zed])) = []"
  proof -
    have "map creator_key (m_rows (merged (init_analyzer example_videos [zed]))) =
        [None, None, None]"
      by (simp add: orphan_rows creator_key_def derive_def join_row_def video.extend_def
          arow.fields_def)
    then have "group_keys creator_key (m_rows (merged (init_analyzer example_videos [zed]))) = []"
      unfolding group_keys_def map_filter_of_map [of creator_key]
      by (simp add: List.map_filter_simps)
    then show ?thesis by (simp add: creator_stats_def groupby_def)
  qed
  have cr: "creator_performance_ranking ties (init_analyzer example_videos [zed]) 5 = []"
    by (simp add: creator_performance_ranking_def cs merge_followers_def sort_values_desc_Nil
        head_def)
  show ?thesis
    by (simp add: generate_insights_report_def orphan_format_series orphan_niche_series
        creator_insight_def cr is_nan_def)
qed

end
